theory Spec2Isabelle
  imports Complex_Main "HOL-Library.Word"
begin

section \<open>Data model\<close>

text \<open>
  The records follow the TypeScript interfaces of \<^verbatim>\<open>app/create-checklist.tsx\<close> and
  \<^verbatim>\<open>app/checklist/[id].tsx\<close>. JavaScript strings are modelled as \<^typ>\<open>string\<close>.
  A field keeps the source's name unless that name is taken: \<^verbatim>\<open>make\<close> is the
  constructor every record gets, \<^verbatim>\<open>length\<close> and \<^verbatim>\<open>power\<close> are constants of HOL (here
  \<open>makeV\<close>, \<open>lengthV\<close>, \<open>powerE\<close>), \<^verbatim>\<open>text\<close> is a keyword
  (here \<open>item_text\<close>), and the fields \<^verbatim>\<open>id\<close>, \<^verbatim>\<open>title\<close> and \<^verbatim>\<open>description\<close>, which occur
  in several interfaces, carry the name of their interface.
\<close>

record VehicleInfo =
  makeV :: string
  model :: string
  series :: string
  year :: string
  bodyType :: string
  doors :: string
  assembly :: string
  licensing :: string
  purchaseDate :: string
  vin :: string
  buildDate :: string
  trimCode :: string
  optionCode :: string
  odometer :: string
  paintColor :: string
  engine :: string
  transmission :: string
  drive :: string
  layout :: string
  rimSize :: string
  tyreSize :: string
  weight :: string
  wheelbase :: string
  lengthV :: string
  height :: string
  width :: string

record EngineInfo =
  engineNumber :: string
  engineCode :: string
  description :: string
  bore :: string
  stroke :: string
  compressionRatio :: string
  powerE :: string
  torque :: string

record FormData =
  form_title :: string
  vehicleInfo :: VehicleInfo
  engineInfo :: EngineInfo

text \<open>
  The text of an item is the one string whose characters the program looks at
  (\<^verbatim>\<open>newItemText.trim()\<close>), so it is kept as JavaScript has it: a sequence of UTF-16 code
  units. \<open>code_units\<close> gives the code units of a text written in ASCII.
\<close>

type_synonym code_unit = "16 word"

definition code_units :: "string \<Rightarrow> code_unit list" where
  "code_units s = map of_char s"

text \<open>\<^verbatim>\<open>completed_at?: string\<close>: an optional property, \<open>None\<close> when it is \<^verbatim>\<open>undefined\<close>.\<close>

record ChecklistItem =
  item_id :: string
  item_text :: "code_unit list"
  completed :: bool
  completed_at :: "string option"

record Photo =
  photo_id :: string
  base64_data :: string
  photo_description :: string
  timestamp :: string

record VehicleChecklist =
  checklist_id :: string
  title :: string
  vehicle_info :: VehicleInfo
  engine_info :: EngineInfo
  tasks :: "ChecklistItem list"
  parts_to_install :: "ChecklistItem list"
  maintenance :: "ChecklistItem list"
  research_items :: "ChecklistItem list"
  photos :: "Photo list"
  created_at :: string
  updated_at :: string

text \<open>
  The object literal that \<^verbatim>\<open>saveChecklist\<close> writes into the index
  (\<^verbatim>\<open>checklist/[id].tsx\<close>, lines 97 to 103): five properties.
\<close>

record ChecklistSummary =
  summary_id :: string
  summary_title :: string
  summary_vehicle_info :: VehicleInfo
  summary_created_at :: string
  summary_updated_at :: string

text \<open>
  The array stored under \<^verbatim>\<open>'vehicle_checklists'\<close> holds objects of two shapes:
  \<^verbatim>\<open>onSubmit\<close> pushes the object \<^verbatim>\<open>newChecklist\<close> itself, \<^verbatim>\<open>saveChecklist\<close> overwrites
  an element with the five-property literal.
\<close>

datatype IndexEntry =
    FullEntry VehicleChecklist
  | SummaryEntry ChecklistSummary

fun entry_id :: "IndexEntry \<Rightarrow> string" where
  "entry_id (FullEntry c) = checklist_id c"
| "entry_id (SummaryEntry s) = summary_id s"

fun entry_title :: "IndexEntry \<Rightarrow> string" where
  "entry_title (FullEntry c) = title c"
| "entry_title (SummaryEntry s) = summary_title s"

fun entry_vehicle_info :: "IndexEntry \<Rightarrow> VehicleInfo" where
  "entry_vehicle_info (FullEntry c) = vehicle_info c"
| "entry_vehicle_info (SummaryEntry s) = summary_vehicle_info s"

fun entry_created_at :: "IndexEntry \<Rightarrow> string" where
  "entry_created_at (FullEntry c) = created_at c"
| "entry_created_at (SummaryEntry s) = summary_created_at s"

fun entry_updated_at :: "IndexEntry \<Rightarrow> string" where
  "entry_updated_at (FullEntry c) = updated_at c"
| "entry_updated_at (SummaryEntry s) = summary_updated_at s"

text \<open>The property names of a stored index element, in the order of its object literal.\<close>

fun entry_keys :: "IndexEntry \<Rightarrow> string list" where
  "entry_keys (FullEntry c) =
     [''id'', ''title'', ''vehicle_info'', ''engine_info'', ''tasks'', ''parts_to_install'',
      ''maintenance'', ''research_items'', ''photos'', ''created_at'', ''updated_at'']"
| "entry_keys (SummaryEntry s) =
     [''id'', ''title'', ''vehicle_info'', ''created_at'', ''updated_at'']"

definition summary_keys :: "string set" where
  "summary_keys = {''id'', ''title'', ''vehicle_info'', ''created_at'', ''updated_at''}"

section \<open>The key-value store\<close>

text \<open>
  AsyncStorage maps string keys to JSON text. The application uses the key
  \<^verbatim>\<open>'vehicle_checklists'\<close> and the keys \<^verbatim>\<open>`checklist_${id}`\<close>; no key of the second form
  equals the first, so the store is a record of the two: \<open>vehicle_checklists\<close> is
  \<open>None\<close> while the key is absent (\<^verbatim>\<open>getItem\<close> gives \<^verbatim>\<open>null\<close>), and \<open>checklist_key st i\<close>
  is the value under \<^verbatim>\<open>`checklist_${i}`\<close>. Values are kept parsed: \<^verbatim>\<open>JSON.parse\<close> of what
  \<^verbatim>\<open>JSON.stringify\<close> wrote. \<^verbatim>\<open>getItem\<close> and \<^verbatim>\<open>setItem\<close> are taken to succeed.
\<close>

record Store =
  vehicle_checklists :: "IndexEntry list option"
  checklist_key :: "string \<rightharpoonup> VehicleChecklist"

definition empty_store :: Store where
  "empty_store = \<lparr>vehicle_checklists = None, checklist_key = Map.empty\<rparr>"

text \<open>\<^verbatim>\<open>existing ? JSON.parse(existing) : []\<close>, for \<^verbatim>\<open>existing\<close> read from \<^verbatim>\<open>'vehicle_checklists'\<close>.\<close>

definition index_of :: "Store \<Rightarrow> IndexEntry list" where
  "index_of st = (case vehicle_checklists st of None \<Rightarrow> [] | Some xs \<Rightarrow> xs)"

datatype error = NotFound

section \<open>Creating a checklist: \<^verbatim>\<open>onSubmit\<close> of \<^verbatim>\<open>create-checklist.tsx\<close>\<close>

text \<open>\<^verbatim>\<open>a || b\<close> on strings: the empty string is the only falsy string.\<close>

definition or_else :: "string \<Rightarrow> string \<Rightarrow> string" where
  "or_else a b = (if a = [] then b else a)"

text \<open>
  The object \<^verbatim>\<open>newChecklist\<close>. The clock is read three times: \<open>now_ms\<close> is
  \<^verbatim>\<open>Date.now().toString()\<close>, \<open>iso1\<close> and \<open>iso2\<close> are the two successive values of
  \<^verbatim>\<open>new Date().toISOString()\<close>. In \<^verbatim>\<open>vehicle_info\<close> the spread \<^verbatim>\<open>...data.vehicleInfo\<close> comes
  after the three listed properties and overwrites them with their own values.
\<close>

definition newChecklist :: "FormData \<Rightarrow> string \<Rightarrow> string \<Rightarrow> string \<Rightarrow> VehicleChecklist" where
  "newChecklist data now_ms iso1 iso2 =
     \<lparr>checklist_id = now_ms,
      title = or_else (form_title data)
                (year (vehicleInfo data) @ '' '' @ makeV (vehicleInfo data) @ '' '' @
                 model (vehicleInfo data)),
      vehicle_info = (vehicleInfo data)
         \<lparr>makeV := makeV (vehicleInfo data),
          model := model (vehicleInfo data),
          year := year (vehicleInfo data)\<rparr>,
      engine_info = engineInfo data,
      tasks = [],
      parts_to_install = [],
      maintenance = [],
      research_items = [],
      photos = [],
      created_at = iso1,
      updated_at = iso2\<rparr>"

text \<open>
  \<^verbatim>\<open>onSubmit\<close>: the index is read (\<^verbatim>\<open>[]\<close> when absent), \<^verbatim>\<open>newChecklist\<close> is pushed and the
  array written back; then the record is written under \<^verbatim>\<open>`checklist_${checklistId}`\<close>.
\<close>

definition onSubmit :: "FormData \<Rightarrow> string \<Rightarrow> string \<Rightarrow> string \<Rightarrow> Store \<Rightarrow> Store" where
  "onSubmit data now_ms iso1 iso2 st =
     (let c = newChecklist data now_ms iso1 iso2;
          checklists = index_of st
      in st\<lparr>vehicle_checklists := Some (checklists @ [FullEntry c]),
            checklist_key := (checklist_key st)(now_ms \<mapsto> c)\<rparr>)"

section \<open>Reading: \<^verbatim>\<open>loadChecklist\<close> of \<^verbatim>\<open>checklist/[id].tsx\<close>\<close>

definition loadChecklist :: "string \<Rightarrow> Store \<Rightarrow> error + VehicleChecklist" where
  "loadChecklist rid st =
     (case checklist_key st rid of None \<Rightarrow> Inl NotFound | Some c \<Rightarrow> Inr c)"

section \<open>The detail screen: \<^verbatim>\<open>checklist/[id].tsx\<close>\<close>

text \<open>
  The component state the handlers read and write: \<^verbatim>\<open>checklist\<close> (\<^verbatim>\<open>null\<close> until loaded),
  \<^verbatim>\<open>newItemText\<close> and \<^verbatim>\<open>activeSection\<close>. A handler takes the route parameter \<^verbatim>\<open>id\<close>
  (\<open>rid\<close>), the values the clock gives it, the screen state and the store, and returns the
  last two. Handlers run one after the other, each on the state the previous one left.
\<close>

text \<open>
  \<^verbatim>\<open>section: string\<close> indexes the checklist object; \<^verbatim>\<open>renderSection\<close> is called with
  \<^verbatim>\<open>'tasks'\<close>, \<^verbatim>\<open>'parts_to_install'\<close>, \<^verbatim>\<open>'maintenance'\<close> and \<^verbatim>\<open>'research_items'\<close> only.
\<close>

datatype section_name = Tasks | Parts_to_install | Maintenance | Research_items

text \<open>\<^verbatim>\<open>checklist[section]\<close>\<close>

fun get_section :: "section_name \<Rightarrow> VehicleChecklist \<Rightarrow> ChecklistItem list" where
  "get_section Tasks c = tasks c"
| "get_section Parts_to_install c = parts_to_install c"
| "get_section Maintenance c = maintenance c"
| "get_section Research_items c = research_items c"

text \<open>\<^verbatim>\<open>{...checklist, [section]: items}\<close>\<close>

fun set_section :: "section_name \<Rightarrow> ChecklistItem list \<Rightarrow> VehicleChecklist \<Rightarrow> VehicleChecklist" where
  "set_section Tasks items c = c\<lparr>tasks := items\<rparr>"
| "set_section Parts_to_install items c = c\<lparr>parts_to_install := items\<rparr>"
| "set_section Maintenance items c = c\<lparr>maintenance := items\<rparr>"
| "set_section Research_items items c = c\<lparr>research_items := items\<rparr>"

record DetailScreen =
  checklist :: "VehicleChecklist option"
  newItemText :: "code_unit list"
  activeSection :: "section_name option"

text \<open>\<^verbatim>\<open>Array.prototype.findIndex\<close>: the first position that satisfies \<open>P\<close>; \<open>None\<close> for -1.\<close>

fun findIndex :: "('a \<Rightarrow> bool) \<Rightarrow> 'a list \<Rightarrow> nat option" where
  "findIndex P [] = None"
| "findIndex P (x # xs) = (if P x then Some 0 else map_option Suc (findIndex P xs))"

text \<open>
  \<^verbatim>\<open>String.prototype.trim\<close> removes white space and line terminators from both ends.
  These are, in ECMAScript: tab, vertical tab, form feed, the byte order mark U+FEFF and the
  space separators of Unicode (U+0020, U+00A0, U+1680, U+2000 to U+200A, U+202F, U+205F,
  U+3000); line feed, carriage return, U+2028 and U+2029. Each is one code unit.
\<close>

definition white_space :: "code_unit list" where
  "white_space =
     [0x0009, 0x000A, 0x000B, 0x000C, 0x000D, 0x0020, 0x00A0, 0x1680,
      0x2000, 0x2001, 0x2002, 0x2003, 0x2004, 0x2005, 0x2006, 0x2007, 0x2008, 0x2009, 0x200A,
      0x2028, 0x2029, 0x202F, 0x205F, 0x3000, 0xFEFF]"

definition is_white_space :: "code_unit \<Rightarrow> bool" where
  "is_white_space u \<longleftrightarrow> u \<in> set white_space"

definition trim :: "code_unit list \<Rightarrow> code_unit list" where
  "trim s = rev (dropWhile is_white_space (rev (dropWhile is_white_space s)))"

text \<open>The five-property literal of \<^verbatim>\<open>saveChecklist\<close>.\<close>

definition summary_of :: "VehicleChecklist \<Rightarrow> ChecklistSummary" where
  "summary_of updated =
     \<lparr>summary_id = checklist_id updated,
      summary_title = title updated,
      summary_vehicle_info = vehicle_info updated,
      summary_created_at = created_at updated,
      summary_updated_at = updated_at updated\<rparr>"

text \<open>
  \<^verbatim>\<open>saveChecklist(updatedChecklist)\<close>; \<open>now\<close> is \<^verbatim>\<open>new Date().toISOString()\<close>. The record is
  written under \<^verbatim>\<open>`checklist_${id}`\<close>, with the route parameter. The index is read
  (\<^verbatim>\<open>[]\<close> when absent) and written back only when \<^verbatim>\<open>findIndex\<close> finds an element whose
  \<^verbatim>\<open>id\<close> is the route parameter.
\<close>

definition saveChecklist ::
  "string \<Rightarrow> VehicleChecklist \<Rightarrow> string \<Rightarrow> DetailScreen \<times> Store \<Rightarrow> DetailScreen \<times> Store" where
  "saveChecklist rid updatedChecklist now w =
     (let updated = updatedChecklist\<lparr>updated_at := now\<rparr>;
          st1 = (snd w)\<lparr>checklist_key := (checklist_key (snd w))(rid \<mapsto> updated)\<rparr>;
          checklists = index_of st1;
          st2 = (case findIndex (\<lambda>item. entry_id item = rid) checklists of
                   None \<Rightarrow> st1
                 | Some index \<Rightarrow>
                     st1\<lparr>vehicle_checklists :=
                           Some (checklists[index := SummaryEntry (summary_of updated)])\<rparr>)
      in ((fst w)\<lparr>checklist := Some updated\<rparr>, st2))"

text \<open>
  \<^verbatim>\<open>addItem(section)\<close>; \<open>now_ms\<close> is \<^verbatim>\<open>Date.now().toString()\<close>, \<open>now\<close> the clock value
  that \<^verbatim>\<open>saveChecklist\<close> reads.
\<close>

definition addItem ::
  "string \<Rightarrow> section_name \<Rightarrow> string \<Rightarrow> string \<Rightarrow> DetailScreen \<times> Store \<Rightarrow> DetailScreen \<times> Store" where
  "addItem rid sec now_ms now w =
     (case checklist (fst w) of
        None \<Rightarrow> w
      | Some c \<Rightarrow>
          if trim (newItemText (fst w)) = [] then w
          else
            let newItem = \<lparr>item_id = now_ms, item_text = trim (newItemText (fst w)),
                           completed = False, completed_at = None\<rparr>;
                updatedChecklist = set_section sec (get_section sec c @ [newItem]) c;
                w' = saveChecklist rid updatedChecklist now w
            in ((fst w')\<lparr>newItemText := [], activeSection := None\<rparr>, snd w'))"

text \<open>
  The element \<^verbatim>\<open>toggleItem\<close> puts at \<^verbatim>\<open>itemIndex\<close>; \<open>now_iso\<close> is the value of
  \<^verbatim>\<open>new Date().toISOString()\<close> read there.
\<close>

definition toggled :: "string \<Rightarrow> ChecklistItem \<Rightarrow> ChecklistItem" where
  "toggled now_iso item =
     item\<lparr>completed := \<not> completed item,
          completed_at := (if \<not> completed item then Some now_iso else None)\<rparr>"

text \<open>\<^verbatim>\<open>toggleItem(section, itemId)\<close>; \<open>now\<close> is the clock value \<^verbatim>\<open>saveChecklist\<close> reads.\<close>

definition toggleItem ::
  "string \<Rightarrow> section_name \<Rightarrow> string \<Rightarrow> string \<Rightarrow> string \<Rightarrow> DetailScreen \<times> Store
     \<Rightarrow> DetailScreen \<times> Store" where
  "toggleItem rid sec itemId now_iso now w =
     (case checklist (fst w) of
        None \<Rightarrow> w
      | Some c \<Rightarrow>
          let items = get_section sec c in
          (case findIndex (\<lambda>item. item_id item = itemId) items of
             None \<Rightarrow> w
           | Some itemIndex \<Rightarrow>
               saveChecklist rid
                 (set_section sec (items[itemIndex := toggled now_iso (items ! itemIndex)]) c)
                 now w))"

text \<open>
  \<^verbatim>\<open>addPhoto\<close>. The image picker is outside the program: \<open>picked\<close> is the base64 text of
  the chosen image, \<open>None\<close> when permission was refused, the picker was cancelled or it
  gave no base64 text. An empty text is falsy and adds nothing. With \<^verbatim>\<open>checklist\<close> still
  \<^verbatim>\<open>null\<close>, \<^verbatim>\<open>checklist!.photos\<close> throws and the handler's \<^verbatim>\<open>catch\<close> leaves the state as it is.
\<close>

definition addPhoto ::
  "string \<Rightarrow> string option \<Rightarrow> string \<Rightarrow> string \<Rightarrow> string \<Rightarrow> DetailScreen \<times> Store
     \<Rightarrow> DetailScreen \<times> Store" where
  "addPhoto rid picked now_ms now_iso now w =
     (case picked of
        None \<Rightarrow> w
      | Some b \<Rightarrow>
          if b = [] then w
          else
            (case checklist (fst w) of
               None \<Rightarrow> w
             | Some c \<Rightarrow>
                 let photo = \<lparr>photo_id = now_ms, base64_data = b, photo_description = [],
                              timestamp = now_iso\<rparr>
                 in saveChecklist rid (c\<lparr>photos := photos c @ [photo]\<rparr>) now w))"

text \<open>\<^verbatim>\<open>updatePhotoDescription(photoId, description)\<close>\<close>

definition updatePhotoDescription ::
  "string \<Rightarrow> string \<Rightarrow> string \<Rightarrow> string \<Rightarrow> DetailScreen \<times> Store \<Rightarrow> DetailScreen \<times> Store" where
  "updatePhotoDescription rid photoId descr now w =
     (case checklist (fst w) of
        None \<Rightarrow> w
      | Some c \<Rightarrow>
          let photos' = map (\<lambda>photo. if photo_id photo = photoId
                                      then photo\<lparr>photo_description := descr\<rparr> else photo)
                            (photos c)
          in saveChecklist rid (c\<lparr>photos := photos'\<rparr>) now w)"

text \<open>The two buttons of the confirmation alerts.\<close>

datatype choice = Cancel | Delete

text \<open>\<^verbatim>\<open>deletePhoto(photoId)\<close>, with the button the user presses in the alert.\<close>

definition deletePhoto ::
  "string \<Rightarrow> string \<Rightarrow> choice \<Rightarrow> string \<Rightarrow> DetailScreen \<times> Store \<Rightarrow> DetailScreen \<times> Store" where
  "deletePhoto rid photoId pressed now w =
     (case checklist (fst w) of
        None \<Rightarrow> w
      | Some c \<Rightarrow>
          (case pressed of
             Cancel \<Rightarrow> w
           | Delete \<Rightarrow>
               saveChecklist rid
                 (c\<lparr>photos := filter (\<lambda>photo. photo_id photo \<noteq> photoId) (photos c)\<rparr>) now w))"

text \<open>
  Opening the detail screen on route \<open>rid\<close>: the initial state, then \<^verbatim>\<open>loadChecklist\<close>,
  which sets \<^verbatim>\<open>checklist\<close> when the key is present.
\<close>

definition openDetail :: "string \<Rightarrow> Store \<Rightarrow> DetailScreen" where
  "openDetail rid st =
     \<lparr>checklist = (case loadChecklist rid st of Inl e \<Rightarrow> None | Inr c \<Rightarrow> Some c),
      newItemText = [], activeSection = None\<rparr>"

section \<open>The list screen: \<^verbatim>\<open>index.tsx\<close>\<close>

record IndexScreen =
  checklists :: "IndexEntry list"

text \<open>\<^verbatim>\<open>loadChecklists\<close>: the state is set only when the key is present.\<close>

definition loadChecklists :: "Store \<Rightarrow> IndexScreen \<Rightarrow> IndexScreen" where
  "loadChecklists st scr =
     (case vehicle_checklists st of
        None \<Rightarrow> scr
      | Some xs \<Rightarrow> scr\<lparr>checklists := xs\<rparr>)"

text \<open>The screen as it is when it gets the focus: initial state \<^verbatim>\<open>[]\<close>, then the load.\<close>

definition openIndex :: "Store \<Rightarrow> IndexScreen" where
  "openIndex st = loadChecklists st \<lparr>checklists = []\<rparr>"

text \<open>
  \<^verbatim>\<open>handleDeleteChecklist(id)\<close>, with the button the user presses in the alert. The
  filtered list is taken from the component state and written under
  \<^verbatim>\<open>'vehicle_checklists'\<close>; no other key is touched.
\<close>

definition handleDeleteChecklist ::
  "string \<Rightarrow> choice \<Rightarrow> IndexScreen \<times> Store \<Rightarrow> IndexScreen \<times> Store" where
  "handleDeleteChecklist did pressed w =
     (case pressed of
        Cancel \<Rightarrow> w
      | Delete \<Rightarrow>
          let updatedChecklists = filter (\<lambda>item. entry_id item \<noteq> did) (checklists (fst w))
          in ((fst w)\<lparr>checklists := updatedChecklists\<rparr>,
              (snd w)\<lparr>vehicle_checklists := Some updatedChecklists\<rparr>))"

section \<open>The vehicle information screen: \<^verbatim>\<open>vehicle-info/[id].tsx\<close>\<close>

text \<open>
  This screen reads the parsed record without a fixed shape, so its values are JavaScript
  values: what \<^verbatim>\<open>JSON.parse\<close> can give, and \<^verbatim>\<open>undefined\<close>, which a property read can
  give. An object is the list of its properties, each name once; a number is a real.
\<close>

datatype js =
    JUndefined
  | JNull
  | JBool bool
  | JNum real
  | JStr string
  | JArr "js list"
  | JObj "(string \<times> js) list"

text \<open>The values that \<^verbatim>\<open>!value\<close> and \<^verbatim>\<open>||\<close> take for true.\<close>

fun truthy :: "js \<Rightarrow> bool" where
  "truthy JUndefined = False"
| "truthy JNull = False"
| "truthy (JBool b) = b"
| "truthy (JNum n) = (n \<noteq> 0)"
| "truthy (JStr s) = (s \<noteq> [])"
| "truthy (JArr xs) = True"
| "truthy (JObj props) = True"

datatype js_error = TypeError | InvalidChild

text \<open>
  \<^verbatim>\<open>x.name\<close>, for the property names this screen reads: reading a property of
  \<^verbatim>\<open>undefined\<close> or \<^verbatim>\<open>null\<close> throws; a string and an array have \<^verbatim>\<open>length\<close>; none of the
  names is inherited from a prototype.
\<close>

fun get_prop :: "js \<Rightarrow> string \<Rightarrow> js_error + js" where
  "get_prop JUndefined name = Inl TypeError"
| "get_prop JNull name = Inl TypeError"
| "get_prop (JBool b) name = Inr JUndefined"
| "get_prop (JNum n) name = Inr JUndefined"
| "get_prop (JStr s) name =
     Inr (if name = ''length'' then JNum (real (length s)) else JUndefined)"
| "get_prop (JArr xs) name =
     Inr (if name = ''length'' then JNum (real (length xs)) else JUndefined)"
| "get_prop (JObj props) name =
     Inr (case map_of props name of None \<Rightarrow> JUndefined | Some v \<Rightarrow> v)"

text \<open>\<^verbatim>\<open>x?.name\<close>\<close>

definition opt_prop :: "js \<Rightarrow> string \<Rightarrow> js_error + js" where
  "opt_prop x name = (if x = JUndefined \<or> x = JNull then Inr JUndefined else get_prop x name)"

text \<open>
  The \<^verbatim>\<open>value\<close> of one \<^verbatim>\<open>InfoRow\<close>:
  \<^verbatim>\<open>checklist.vehicleInfo?.make || checklist.vehicle_info?.make || ''\<close>, with the two keys of
  the nested object and the field name as parameters. The right operand of \<^verbatim>\<open>||\<close> is
  evaluated only when the left one is falsy.
\<close>

definition info_value :: "js \<Rightarrow> string \<Rightarrow> string \<Rightarrow> string \<Rightarrow> js_error + js" where
  "info_value parsed camel snake field =
     (case get_prop parsed camel of
        Inl e \<Rightarrow> Inl e
      | Inr a \<Rightarrow>
          (case opt_prop a field of
             Inl e \<Rightarrow> Inl e
           | Inr v \<Rightarrow>
               if truthy v then Inr v
               else
                 (case get_prop parsed snake of
                    Inl e \<Rightarrow> Inl e
                  | Inr b \<Rightarrow>
                      (case opt_prop b field of
                         Inl e \<Rightarrow> Inl e
                       | Inr v' \<Rightarrow> if truthy v' then Inr v' else Inr (JStr [])))))"

text \<open>The rows of the screen, in order: the label and the field each row reads.\<close>

definition vehicle_rows :: "(string \<times> string) list" where
  "vehicle_rows =
     [(''Make'', ''make''), (''Model'', ''model''), (''Series/Variant'', ''series''),
      (''Model Year'', ''year''), (''Body Type'', ''bodyType''), (''Doors'', ''doors''),
      (''Assembly'', ''assembly''), (''Licensing'', ''licensing''),
      (''Purchase Date'', ''purchaseDate''), (''VIN #'', ''vin''),
      (''Build Date'', ''buildDate''), (''Trim Code'', ''trimCode''),
      (''Option Code'', ''optionCode''), (''Odometer'', ''odometer''),
      (''Paint Colour/Code'', ''paintColor''),
      (''Engine'', ''engine''), (''Transmission'', ''transmission''), (''Drive'', ''drive''),
      (''Layout'', ''layout''),
      (''Rim Size'', ''rimSize''), (''Tyre Size'', ''tyreSize''), (''Weight'', ''weight''),
      (''Wheelbase'', ''wheelbase''), (''Length'', ''length''), (''Height'', ''height''),
      (''Width'', ''width'')]"

definition engine_rows :: "(string \<times> string) list" where
  "engine_rows =
     [(''Engine #'', ''engineNumber''), (''Engine Code'', ''engineCode''),
      (''Description'', ''description''), (''Bore'', ''bore''), (''Stroke'', ''stroke''),
      (''Comp. Ratio'', ''compressionRatio''), (''Power'', ''power''),
      (''Torque'', ''torque'')]"

text \<open>
  The rows of one group, top to bottom. \<^verbatim>\<open>InfoRow\<close> returns \<^verbatim>\<open>null\<close> for a falsy value,
  so only the rows with a truthy value are shown.
\<close>

fun info_rows ::
  "js \<Rightarrow> string \<Rightarrow> string \<Rightarrow> (string \<times> string) list \<Rightarrow> js_error + (string \<times> js) list" where
  "info_rows parsed camel snake [] = Inr []"
| "info_rows parsed camel snake ((label, field) # rest) =
     (case info_value parsed camel snake field of
        Inl e \<Rightarrow> Inl e
      | Inr v \<Rightarrow>
          (case info_rows parsed camel snake rest of
             Inl e \<Rightarrow> Inl e
           | Inr rows \<Rightarrow> Inr (if truthy v then (label, v) # rows else rows)))"

text \<open>
  \<^verbatim>\<open>InfoRow\<close> puts the value between the tags of \<^verbatim>\<open>Text\<close>, as a React child. Strings
  and numbers are rendered, \<^verbatim>\<open>null\<close> and booleans render nothing, an array is rendered
  element by element, and for an object React throws "Objects are not valid as a React
  child".
\<close>

fun renderable :: "js \<Rightarrow> bool" where
  "renderable (JObj props) = False"
| "renderable (JArr xs) = (\<forall>x \<in> set xs. renderable x)"
| "renderable v = True"

text \<open>Rendering the rows that are shown: the first value that is no React child throws.\<close>

fun render_rows :: "(string \<times> js) list \<Rightarrow> js_error + (string \<times> js) list" where
  "render_rows [] = Inr []"
| "render_rows ((label, v) # rest) =
     (if \<not> renderable v then Inl InvalidChild
      else (case render_rows rest of Inl e \<Rightarrow> Inl e | Inr rows \<Rightarrow> Inr ((label, v) # rows)))"

datatype info_view = NotFoundView | InfoView "(string \<times> js) list"

text \<open>
  What the component renders once loading is over. \<open>parsed\<close> is the state \<^verbatim>\<open>checklist\<close>:
  \<^verbatim>\<open>null\<close>, or the value \<^verbatim>\<open>JSON.parse\<close> gave for the text under \<^verbatim>\<open>`checklist_${id}`\<close>.
  The component first evaluates the \<^verbatim>\<open>value\<close> of every row, then React renders the rows.
\<close>

definition VehicleInfo_screen :: "js \<Rightarrow> js_error + info_view" where
  "VehicleInfo_screen parsed =
     (if \<not> truthy parsed then Inr NotFoundView
      else
        (case info_rows parsed ''vehicleInfo'' ''vehicle_info'' vehicle_rows of
           Inl e \<Rightarrow> Inl e
         | Inr vs \<Rightarrow>
             (case info_rows parsed ''engineInfo'' ''engine_info'' engine_rows of
                Inl e \<Rightarrow> Inl e
              | Inr es \<Rightarrow>
                  (case render_rows (vs @ es) of
                     Inl e \<Rightarrow> Inl e
                   | Inr rows \<Rightarrow> Inr (InfoView rows)))))"

text \<open>
  A nested information object whose fields are strings, given by its fields, and the text
  such an object holds for a field: the empty string when the field is missing.
\<close>

definition info_object :: "(string \<times> string) list \<Rightarrow> js" where
  "info_object fs = JObj (map (\<lambda>(k, s). (k, JStr s)) fs)"

definition field_text :: "(string \<times> string) list \<Rightarrow> string \<Rightarrow> string" where
  "field_text fs field = (case map_of fs field of None \<Rightarrow> [] | Some s \<Rightarrow> s)"

text \<open>
  How a record stores a nested object under a key: not at all (the key is missing or holds
  \<^verbatim>\<open>null\<close>; then it has no fields), or as an object of string fields.
\<close>

definition stored_as :: "js option \<Rightarrow> (string \<times> string) list \<Rightarrow> bool" where
  "stored_as v fs \<longleftrightarrow> ((v = None \<or> v = Some JNull) \<and> fs = []) \<or> v = Some (info_object fs)"

text \<open>
  The rows a group shows for a record whose two nested objects have the given fields:
  the value of a row is the camelCase text when it is not empty, else the snake_case text.
\<close>

definition shown_rows ::
  "(string \<times> string) list \<Rightarrow> (string \<times> string) list \<Rightarrow> (string \<times> string) list
     \<Rightarrow> (string \<times> js) list" where
  "shown_rows rows camel_fields snake_fields =
     map (\<lambda>(label, field).
            (label, JStr (or_else (field_text camel_fields field) (field_text snake_fields field))))
         (filter (\<lambda>(label, field).
                    or_else (field_text camel_fields field) (field_text snake_fields field) \<noteq> [])
                 rows)"

section \<open>Reachable stores\<close>



section \<open>Example data\<close>

text \<open>\<^verbatim>\<open>defaultValues\<close> of the creation form: every field is the empty string.\<close>

definition defaultValues :: FormData where
  "defaultValues =
     \<lparr>form_title = [],
      vehicleInfo =
        \<lparr>makeV = [], model = [], series = [], year = [], bodyType = [], doors = [],
         assembly = [], licensing = [], purchaseDate = [], vin = [], buildDate = [],
         trimCode = [], optionCode = [], odometer = [], paintColor = [], engine = [],
         transmission = [], drive = [], layout = [], rimSize = [], tyreSize = [],
         weight = [], wheelbase = [], lengthV = [], height = [], width = []\<rparr>,
      engineInfo =
        \<lparr>engineNumber = [], engineCode = [], description = [], bore = [], stroke = [],
         compressionRatio = [], powerE = [], torque = []\<rparr>\<rparr>"

text \<open>The form with make, model and year filled in and no title.\<close>

definition toyota :: FormData where
  "toyota = defaultValues\<lparr>vehicleInfo :=
      (vehicleInfo defaultValues)\<lparr>makeV := ''Toyota'', model := ''Camry'', year := ''2023''\<rparr>\<rparr>"

text \<open>
  The record \<^verbatim>\<open>onSubmit\<close> builds from that form when the clock advances by one
  millisecond between the two timestamps, and the store after that creation.
\<close>

definition camry :: VehicleChecklist where
  "camry = newChecklist toyota ''1700000000000'' ''2023-11-14T22:13:20.000Z''
             ''2023-11-14T22:13:20.001Z''"

definition garage :: Store where
  "garage = onSubmit toyota ''1700000000000'' ''2023-11-14T22:13:20.000Z''
              ''2023-11-14T22:13:20.001Z'' empty_store"

text \<open>The store after the checklist is then deleted on the list screen.\<close>

definition garage_after_delete :: Store where
  "garage_after_delete =
     snd (handleDeleteChecklist ''1700000000000'' Delete (openIndex garage, garage))"

text \<open>
  On the detail screen of that checklist: the item "Replace timing belt" is added to the
  tasks, then toggled once.
\<close>

definition belt_added :: "DetailScreen \<times> Store" where
  "belt_added =
     addItem ''1700000000000'' Tasks ''1700000060000'' ''2023-11-14T22:14:20.000Z''
       ((openDetail ''1700000000000'' garage)\<lparr>newItemText := code_units '' Replace timing belt ''\<rparr>, garage)"

definition belt_done :: "DetailScreen \<times> Store" where
  "belt_done =
     toggleItem ''1700000000000'' Tasks ''1700000060000'' ''2023-11-14T22:15:00.000Z''
       ''2023-11-14T22:15:00.002Z'' belt_added"

definition belt :: ChecklistItem where
  "belt = \<lparr>item_id = ''1700000060000'', item_text = code_units ''Replace timing belt'',
           completed = False, completed_at = None\<rparr>"


text \<open>
  On the detail screen after the item was added: a second item is added while the clock
  gives the value it gave for the first.
\<close>

definition pump_added :: "DetailScreen \<times> Store" where
  "pump_added =
     addItem ''1700000000000'' Tasks ''1700000060000'' ''2023-11-14T22:14:20.000Z''
       ((fst belt_added)\<lparr>newItemText := code_units ''Water pump''\<rparr>, snd belt_added)"

text \<open>On the detail screen of the created checklist: two photos are added.\<close>

definition photos_added :: "DetailScreen \<times> Store" where
  "photos_added =
     addPhoto ''1700000000000'' (Some ''def456'') ''1700000180000'' ''2023-11-14T22:16:20.000Z''
       ''2023-11-14T22:16:20.002Z''
       (addPhoto ''1700000000000'' (Some ''abc123'') ''1700000120000''
          ''2023-11-14T22:15:20.000Z'' ''2023-11-14T22:15:20.002Z''
          (openDetail ''1700000000000'' garage, garage))"

definition engine_photo :: Photo where
  "engine_photo = \<lparr>photo_id = ''1700000120000'', base64_data = ''abc123'',
                    photo_description = [], timestamp = ''2023-11-14T22:15:20.000Z''\<rparr>"

definition wheel_photo :: Photo where
  "wheel_photo = \<lparr>photo_id = ''1700000180000'', base64_data = ''def456'',
                   photo_description = [], timestamp = ''2023-11-14T22:16:20.000Z''\<rparr>"

text \<open>
  A record of another shape: the vehicle information under the camelCase key, the engine
  information under the snake_case key, each with some fields only.
\<close>

definition legacy_record :: js where
  "legacy_record =
     JObj [(''id'', JStr ''1600000000000''), (''title'', JStr ''Old project''),
           (''vehicleInfo'', info_object [(''make'', ''Toyota''), (''year'', ''2023'')]),
           (''engine_info'', info_object [(''engineCode'', ''2AR-FE''), (''bore'', [])])]"

text \<open>A record whose field \<^verbatim>\<open>make\<close> holds an object instead of a string.\<close>

definition object_field_record :: js where
  "object_field_record =
     JObj [(''id'', JStr ''1600000000001''),
           (''vehicle_info'', JObj [(''make'', JObj [(''name'', JStr ''Toyota'')])])]"

section \<open>Properties\<close>

subsection \<open>Lists and records\<close>

text \<open>What \<^verbatim>\<open>findIndex\<close> returns, and how the selectors see the updates of a list.\<close>

lemma findIndex_None: "findIndex P xs = None \<longleftrightarrow> (\<forall>x \<in> set xs. \<not> P x)"
  by (induction xs) auto

lemma findIndex_Some:
  "findIndex P xs = Some i \<Longrightarrow> i < length xs \<and> P (xs ! i) \<and> (\<forall>j < i. \<not> P (xs ! j))"
proof (induction xs arbitrary: i)
  case Nil
  then show ?case by simp
next
  case (Cons x xs)
  show ?case
  proof (cases "P x")
    case True
    with Cons.prems show ?thesis by simp
  next
    case False
    with Cons.prems obtain k where k: "findIndex P xs = Some k" "i = Suc k"
      by auto
    from Cons.IH [OF k(1)] False k(2) show ?thesis
      by (auto simp: nth_Cons split: nat.splits)
  qed
qed

lemma findIndex_update:
  "findIndex P xs = Some i \<Longrightarrow> P y \<Longrightarrow> findIndex P (xs[i := y]) = Some i"
proof (induction xs arbitrary: i)
  case Nil
  then show ?case by simp
next
  case (Cons x xs)
  show ?case
  proof (cases "P x")
    case True
    with Cons.prems show ?thesis by simp
  next
    case False
    with Cons.prems obtain k where k: "findIndex P xs = Some k" "i = Suc k"
      by auto
    from Cons.IH [OF k(1) Cons.prems(2)] False k(2) show ?thesis
      by simp
  qed
qed

lemma get_section_set_section [simp]:
  "get_section s' (set_section s xs c) = (if s' = s then xs else get_section s' c)"
  by (cases s; cases s'; simp)

lemma get_section_updated_at [simp]:
  "get_section s (c\<lparr>updated_at := t\<rparr>) = get_section s c"
  by (cases s; simp)

lemma set_section_fields [simp]:
  "photos (set_section s xs c) = photos c"
  "checklist_id (set_section s xs c) = checklist_id c"
  "title (set_section s xs c) = title c"
  "vehicle_info (set_section s xs c) = vehicle_info c"
  "engine_info (set_section s xs c) = engine_info c"
  "created_at (set_section s xs c) = created_at c"
  "updated_at (set_section s xs c) = updated_at c"
  by (cases s; simp)+

lemma item_id_toggled [simp]: "item_id (toggled t item) = item_id item"
  by (simp add: toggled_def)

lemma toggled_toggled:
  "toggled t2 (toggled t1 item) =
     item\<lparr>completed_at := (if completed item then Some t2 else None)\<rparr>"
  by (simp add: toggled_def)

lemma code_units_empty [simp]: "code_units s = [] \<longleftrightarrow> s = []"
  by (simp add: code_units_def)


subsection \<open>The handlers, unfolded\<close>

text \<open>
  The screen part and the store part of a save, and the handlers in the case where they
  reach the save. The last two facts are why a reachable store may be described with a
  freshly opened screen: after every handler the checklist of the screen is the record
  stored under the route identifier, as it is after loading.
\<close>

lemma fst_saveChecklist:
  "fst (saveChecklist rid u now w) = (fst w)\<lparr>checklist := Some (u\<lparr>updated_at := now\<rparr>)\<rparr>"
  by (simp add: saveChecklist_def Let_def)

lemma index_of_checklist_key_update [simp]:
  "index_of (st\<lparr>checklist_key := m\<rparr>) = index_of st"
  by (simp add: index_of_def)

lemma snd_saveChecklist:
  "snd (saveChecklist rid u now w) =
     (case findIndex (\<lambda>item. entry_id item = rid) (index_of (snd w)) of
        None \<Rightarrow> (snd w)\<lparr>checklist_key := (checklist_key (snd w))(rid \<mapsto> u\<lparr>updated_at := now\<rparr>)\<rparr>
      | Some i \<Rightarrow>
          (snd w)\<lparr>checklist_key := (checklist_key (snd w))(rid \<mapsto> u\<lparr>updated_at := now\<rparr>),
                  vehicle_checklists :=
                    Some ((index_of (snd w))[i := SummaryEntry (summary_of (u\<lparr>updated_at := now\<rparr>))])\<rparr>)"
  by (simp add: saveChecklist_def Let_def split: option.splits)



lemma checklist_id_newChecklist [simp]: "checklist_id (newChecklist data k i1 i2) = k"
  by (simp add: newChecklist_def)

lemma addItem_Some:
  "checklist scr = Some c \<Longrightarrow> trim (newItemText scr) \<noteq> [] \<Longrightarrow>
   addItem rid sec now_ms now (scr, st) =
     ((fst (saveChecklist rid
              (set_section sec
                 (get_section sec c @
                    [\<lparr>item_id = now_ms, item_text = trim (newItemText scr), completed = False,
                      completed_at = None\<rparr>]) c) now (scr, st)))
        \<lparr>newItemText := [], activeSection := None\<rparr>,
      snd (saveChecklist rid
              (set_section sec
                 (get_section sec c @
                    [\<lparr>item_id = now_ms, item_text = trim (newItemText scr), completed = False,
                      completed_at = None\<rparr>]) c) now (scr, st)))"
  by (simp add: addItem_def Let_def)

lemma toggleItem_Some:
  "checklist (fst w) = Some c \<Longrightarrow>
   findIndex (\<lambda>item. item_id item = itemId) (get_section sec c) = Some i \<Longrightarrow>
   toggleItem rid sec itemId now_iso now w =
     saveChecklist rid
       (set_section sec ((get_section sec c)[i := toggled now_iso (get_section sec c ! i)]) c)
       now w"
  by (simp add: toggleItem_def Let_def)

lemma toggleItem_None:
  "checklist (fst w) = Some c \<Longrightarrow>
   findIndex (\<lambda>item. item_id item = itemId) (get_section sec c) = None \<Longrightarrow>
   toggleItem rid sec itemId now_iso now w = w"
  by (simp add: toggleItem_def Let_def)



lemma saveChecklist_in_sync:
  "checklist (fst (saveChecklist rid u now w)) = checklist_key (snd (saveChecklist rid u now w)) rid"
  by (simp add: fst_saveChecklist snd_saveChecklist split: option.splits)

lemma handlers_in_sync:
  assumes "checklist (fst w) = checklist_key (snd w) rid"
  shows "checklist (fst (addItem rid sec now_ms now w)) =
           checklist_key (snd (addItem rid sec now_ms now w)) rid"
    and "checklist (fst (toggleItem rid sec itemId now_iso now w)) =
           checklist_key (snd (toggleItem rid sec itemId now_iso now w)) rid"
    and "checklist (fst (addPhoto rid picked now_ms now_iso now w)) =
           checklist_key (snd (addPhoto rid picked now_ms now_iso now w)) rid"
    and "checklist (fst (updatePhotoDescription rid photoId descr now w)) =
           checklist_key (snd (updatePhotoDescription rid photoId descr now w)) rid"
    and "checklist (fst (deletePhoto rid photoId pressed now w)) =
           checklist_key (snd (deletePhoto rid photoId pressed now w)) rid"
  using assms
  by (simp_all add: addItem_def toggleItem_def addPhoto_def updatePhotoDescription_def
      deletePhoto_def Let_def saveChecklist_in_sync
      split: option.splits choice.splits)

subsection \<open>The example, evaluated\<close>


lemma garage_index: "index_of garage = [FullEntry camry]"
  by (simp add: garage_def camry_def onSubmit_def Let_def index_of_def empty_store_def)

lemma garage_camry: "checklist_key garage ''1700000000000'' = Some camry"
  by (simp add: garage_def camry_def onSubmit_def Let_def)

lemma camry_id: "checklist_id camry = ''1700000000000''"
  by (simp add: camry_def newChecklist_def)

lemma camry_tasks: "tasks camry = []"
  by (simp add: camry_def newChecklist_def)

lemma camry_photos: "photos camry = []"
  by (simp add: camry_def newChecklist_def)

lemma camry_updated_at: "updated_at camry = ''2023-11-14T22:13:20.001Z''"
  by (simp add: camry_def newChecklist_def)

lemma openDetail_garage:
  "openDetail ''1700000000000'' garage =
     \<lparr>checklist = Some camry, newItemText = [], activeSection = None\<rparr>"
  by (simp add: openDetail_def loadChecklist_def garage_camry)

lemma trim_belt:
  "trim (code_units '' Replace timing belt '') = code_units ''Replace timing belt''"
  by (simp add: trim_def is_white_space_def white_space_def code_units_def)

lemma trim_pump: "trim (code_units ''Water pump'') = code_units ''Water pump''"
  by (simp add: trim_def is_white_space_def white_space_def code_units_def)

lemma trim_no_break_space: "trim [0x00A0, 0x0020, 0xFEFF] = []"
  by (simp add: trim_def is_white_space_def white_space_def)

lemma belt_added_checklist:
  "checklist (fst belt_added) =
     Some (camry\<lparr>tasks := [belt], updated_at := ''2023-11-14T22:14:20.000Z''\<rparr>)"
  by (simp add: belt_added_def openDetail_garage addItem_def trim_belt Let_def fst_saveChecklist
      camry_tasks belt_def)



lemma belt_done_checklist:
  "checklist (fst belt_done) =
     Some (camry\<lparr>tasks := [belt\<lparr>completed := True,
                                 completed_at := Some ''2023-11-14T22:15:00.000Z''\<rparr>],
                 updated_at := ''2023-11-14T22:15:00.002Z''\<rparr>)"
  by (simp add: belt_done_def toggleItem_def belt_added_checklist Let_def fst_saveChecklist
      toggled_def belt_def)


lemma photos_added_checklist:
  "checklist (fst photos_added) =
     Some (camry\<lparr>photos := [engine_photo, wheel_photo],
                 updated_at := ''2023-11-14T22:16:20.002Z''\<rparr>)"
  by (simp add: photos_added_def addPhoto_def openDetail_garage fst_saveChecklist camry_photos
      engine_photo_def wheel_photo_def Let_def)



subsection \<open>Creation\<close>

text \<open>
  C9. When the title field of the form is the empty string, the record that creation stores
  has the title "<year> <make> <model>" built from the supplied vehicle fields.
\<close>

theorem title_defaults_to_year_make_model:
  "form_title data = [] \<Longrightarrow>
     loadChecklist now_ms (onSubmit data now_ms iso1 iso2 st) =
       Inr (newChecklist data now_ms iso1 iso2) \<and>
     title (newChecklist data now_ms iso1 iso2) =
       year (vehicleInfo data) @ '' '' @ makeV (vehicleInfo data) @ '' '' @ model (vehicleInfo data)"
  by (simp add: loadChecklist_def onSubmit_def newChecklist_def or_else_def Let_def)

text \<open>For make "Toyota", model "Camry" and year "2023" the title is "2023 Toyota Camry".\<close>

theorem title_defaults_to_year_make_model_witness:
  "form_title toyota = [] \<and>
   loadChecklist ''1700000000000''
       (onSubmit toyota ''1700000000000'' ''2023-11-14T22:13:20.000Z''
          ''2023-11-14T22:13:20.000Z'' empty_store) =
     Inr (newChecklist toyota ''1700000000000'' ''2023-11-14T22:13:20.000Z''
            ''2023-11-14T22:13:20.000Z'') \<and>
   title (newChecklist toyota ''1700000000000'' ''2023-11-14T22:13:20.000Z''
            ''2023-11-14T22:13:20.000Z'') = ''2023 Toyota Camry''"
proof -
  have h: "form_title toyota = []"
    by (simp add: toyota_def defaultValues_def)
  show ?thesis
    using h title_defaults_to_year_make_model [OF h, of "''1700000000000''"
        "''2023-11-14T22:13:20.000Z''" "''2023-11-14T22:13:20.000Z''" empty_store]
    by (simp add: toyota_def defaultValues_def)
qed

text \<open>
  The claim C4 as stated fails: \<^verbatim>\<open>onSubmit\<close> reads the clock once for \<^verbatim>\<open>created_at\<close> and
  once more for \<^verbatim>\<open>updated_at\<close>. When the clock advances between the two readings, the
  record that comes back has two different timestamps.
\<close>

theorem created_at_differs_counterexample:
  "loadChecklist ''1700000000000'' garage = Inr camry \<and> created_at camry \<noteq> updated_at camry"
  by (simp add: garage_def camry_def loadChecklist_def onSubmit_def newChecklist_def Let_def)

text \<open>
  C4, amended. Creating a checklist and then reading it under the new identifier gives a
  record that carries that identifier, the supplied title when it is not empty, the
  supplied vehicle and engine information, four empty item lists and an empty photo list;
  \<^verbatim>\<open>created_at\<close> and \<^verbatim>\<open>updated_at\<close> are the two clock readings of the creation, in that
  order, so they are equal exactly when the two readings are.
\<close>

theorem create_then_get:
  "\<exists>c. loadChecklist now_ms (onSubmit data now_ms iso1 iso2 st) = Inr c \<and>
       checklist_id c = now_ms \<and>
       (form_title data \<noteq> [] \<longrightarrow> title c = form_title data) \<and>
       vehicle_info c = vehicleInfo data \<and>
       engine_info c = engineInfo data \<and>
       tasks c = [] \<and> parts_to_install c = [] \<and> maintenance c = [] \<and>
       research_items c = [] \<and> photos c = [] \<and>
       created_at c = iso1 \<and> updated_at c = iso2 \<and>
       (created_at c = updated_at c \<longleftrightarrow> iso1 = iso2)"
  by (simp add: loadChecklist_def onSubmit_def newChecklist_def or_else_def Let_def)

theorem create_then_get_witness:
  "\<exists>c. loadChecklist ''1700000000000''
         (onSubmit (toyota\<lparr>form_title := ''Project car''\<rparr>) ''1700000000000''
            ''2023-11-14T22:13:20.000Z'' ''2023-11-14T22:13:20.000Z'' empty_store) = Inr c \<and>
       checklist_id c = ''1700000000000'' \<and>
       title c = ''Project car'' \<and>
       vehicle_info c = vehicleInfo toyota \<and>
       engine_info c = engineInfo toyota \<and>
       tasks c = [] \<and> parts_to_install c = [] \<and> maintenance c = [] \<and>
       research_items c = [] \<and> photos c = [] \<and>
       created_at c = updated_at c"
  using create_then_get [of "''1700000000000''" "toyota\<lparr>form_title := ''Project car''\<rparr>"
      "''2023-11-14T22:13:20.000Z''" "''2023-11-14T22:13:20.000Z''" empty_store]
  by auto

subsection \<open>Deletion\<close>

text \<open>
  The claim C1 as stated fails: \<^verbatim>\<open>handleDeleteChecklist\<close> writes the filtered index and
  nothing else. After the checklist created in the example is deleted, reading it under its
  identifier still gives the record, not \<^verbatim>\<open>NotFound\<close>.
\<close>

theorem delete_keeps_record_counterexample:
  "loadChecklist ''1700000000000'' garage_after_delete = Inr camry \<and>
   loadChecklist ''1700000000000'' garage_after_delete \<noteq> Inl NotFound"
  by (simp add: garage_after_delete_def garage_def camry_def loadChecklist_def onSubmit_def
      handleDeleteChecklist_def Let_def)

text \<open>
  C1, amended. For every stored checklist with identifier \<open>X\<close>, deleting \<open>X\<close> on the list
  screen writes the index without the entries whose identifier is \<open>X\<close>, the other entries
  in their order, so that the list read afterwards does not include \<open>X\<close>; the key of the
  full record is left as it is, and reading \<open>X\<close> afterwards still gives the record.
\<close>

theorem delete_filters_index_only:
  "checklist_key st X = Some c \<Longrightarrow>
   handleDeleteChecklist X Delete (openIndex st, st) = (scr', st') \<Longrightarrow>
     vehicle_checklists st' = Some (filter (\<lambda>item. entry_id item \<noteq> X) (index_of st)) \<and>
     checklists (openIndex st') = filter (\<lambda>item. entry_id item \<noteq> X) (index_of st) \<and>
     X \<notin> entry_id ` set (checklists (openIndex st')) \<and>
     checklist_key st' = checklist_key st \<and>
     loadChecklist X st' = Inr c"
  by (auto simp: handleDeleteChecklist_def openIndex_def loadChecklists_def index_of_def
        loadChecklist_def Let_def split: option.splits)

theorem delete_filters_index_only_witness:
  "checklist_key garage ''1700000000000'' = Some camry \<and>
   vehicle_checklists garage = Some [FullEntry camry] \<and>
   vehicle_checklists garage_after_delete = Some [] \<and>
   checklists (openIndex garage_after_delete) = [] \<and>
   checklist_key garage_after_delete = checklist_key garage \<and>
   loadChecklist ''1700000000000'' garage_after_delete = Inr camry"
proof -
  have h1: "checklist_key garage ''1700000000000'' = Some camry"
    by (simp add: garage_def camry_def onSubmit_def Let_def)
  have h2: "handleDeleteChecklist ''1700000000000'' Delete (openIndex garage, garage) =
              (fst (handleDeleteChecklist ''1700000000000'' Delete (openIndex garage, garage)),
               garage_after_delete)"
    by (simp add: garage_after_delete_def)
  have h3: "vehicle_checklists garage = Some [FullEntry camry]"
    by (simp add: garage_def camry_def onSubmit_def Let_def index_of_def empty_store_def)
  have h4: "entry_id (FullEntry camry) = ''1700000000000''"
    by (simp add: camry_def newChecklist_def)
  show ?thesis
    using delete_filters_index_only [OF h1 h2] h1 h3 h4
    by (simp add: index_of_def)
qed

subsection \<open>Saving\<close>

text \<open>
  The claim C2 as stated fails: \<^verbatim>\<open>saveChecklist\<close> writes the index only when
  \<^verbatim>\<open>findIndex\<close> finds an element with the identifier. In the example the record exists and
  the index has no element for it; after the save the index is still empty, so nothing was
  inserted.
\<close>

theorem update_does_not_insert_counterexample:
  "loadChecklist ''1700000000000'' garage_after_delete = Inr camry \<and>
   vehicle_checklists garage_after_delete = Some [] \<and>
   vehicle_checklists
     (snd (saveChecklist ''1700000000000'' camry ''2023-11-15T08:00:00.000Z''
             (openDetail ''1700000000000'' garage_after_delete, garage_after_delete))) = Some []"
  by (simp add: snd_saveChecklist garage_after_delete_def garage_def camry_def loadChecklist_def
      onSubmit_def handleDeleteChecklist_def openIndex_def loadChecklists_def Let_def
      index_of_def empty_store_def newChecklist_def)

text \<open>
  C2, amended. Every save of a record sets \<^verbatim>\<open>updated_at\<close> to the clock value and stores
  the full record under the key of the route identifier. When the index has no element
  with that identifier, the index is left as it is. When it has one, the first such element
  is replaced by the five-property projection of the saved record, whose title, vehicle
  information, creation time and update time are those of the saved record; the index
  keeps its length and every other element.
\<close>

theorem saveChecklist_effect:
  "saveChecklist rid u now (scr, st) = (scr', st') \<Longrightarrow>
     checklist scr' = Some (u\<lparr>updated_at := now\<rparr>) \<and>
     loadChecklist rid st' = Inr (u\<lparr>updated_at := now\<rparr>) \<and>
     checklist_key st' = (checklist_key st)(rid \<mapsto> u\<lparr>updated_at := now\<rparr>) \<and>
     ((\<forall>e \<in> set (index_of st). entry_id e \<noteq> rid) \<longrightarrow>
        vehicle_checklists st' = vehicle_checklists st) \<and>
     ((\<exists>e \<in> set (index_of st). entry_id e = rid) \<longrightarrow>
        (\<exists>i < length (index_of st).
           entry_id (index_of st ! i) = rid \<and>
           (\<forall>j < i. entry_id (index_of st ! j) \<noteq> rid) \<and>
           vehicle_checklists st' =
             Some ((index_of st)[i := SummaryEntry (summary_of (u\<lparr>updated_at := now\<rparr>))]) \<and>
           entry_id (index_of st' ! i) = checklist_id u \<and>
           entry_title (index_of st' ! i) = title u \<and>
           entry_vehicle_info (index_of st' ! i) = vehicle_info u \<and>
           entry_created_at (index_of st' ! i) = created_at u \<and>
           entry_updated_at (index_of st' ! i) = now \<and>
           set (entry_keys (index_of st' ! i)) = summary_keys \<and>
           length (index_of st') = length (index_of st) \<and>
           (\<forall>j. j \<noteq> i \<longrightarrow> index_of st' ! j = index_of st ! j)))"
proof -
  assume a: "saveChecklist rid u now (scr, st) = (scr', st')"
  let ?up = "u\<lparr>updated_at := now\<rparr>"
  let ?P = "\<lambda>item. entry_id item = rid"
  from a have scr': "scr' = scr\<lparr>checklist := Some ?up\<rparr>"
    using fst_saveChecklist [of rid u now "(scr, st)"] by simp
  from a have st': "st' = snd (saveChecklist rid u now (scr, st))"
    by simp
  have key: "checklist_key st' = (checklist_key st)(rid \<mapsto> ?up)"
    unfolding st' snd_saveChecklist by (simp split: option.splits)
  have none: "vehicle_checklists st' = vehicle_checklists st"
    if "\<forall>e \<in> set (index_of st). entry_id e \<noteq> rid"
  proof -
    from that have "findIndex ?P (index_of st) = None"
      by (simp add: findIndex_None)
    then show ?thesis
      unfolding st' snd_saveChecklist by simp
  qed
  have some: "\<exists>i < length (index_of st).
           entry_id (index_of st ! i) = rid \<and>
           (\<forall>j < i. entry_id (index_of st ! j) \<noteq> rid) \<and>
           vehicle_checklists st' = Some ((index_of st)[i := SummaryEntry (summary_of ?up)]) \<and>
           entry_id (index_of st' ! i) = checklist_id u \<and>
           entry_title (index_of st' ! i) = title u \<and>
           entry_vehicle_info (index_of st' ! i) = vehicle_info u \<and>
           entry_created_at (index_of st' ! i) = created_at u \<and>
           entry_updated_at (index_of st' ! i) = now \<and>
           set (entry_keys (index_of st' ! i)) = summary_keys \<and>
           length (index_of st') = length (index_of st) \<and>
           (\<forall>j. j \<noteq> i \<longrightarrow> index_of st' ! j = index_of st ! j)"
    if "\<exists>e \<in> set (index_of st). entry_id e = rid"
  proof -
    from that obtain i where i: "findIndex ?P (index_of st) = Some i"
      using findIndex_None [of ?P "index_of st"] by (cases "findIndex ?P (index_of st)") auto
    from findIndex_Some [OF i] have
      lt: "i < length (index_of st)" and hit: "entry_id (index_of st ! i) = rid"
      and first: "\<forall>j < i. entry_id (index_of st ! j) \<noteq> rid"
      by auto
    have idx: "vehicle_checklists st' = Some ((index_of st)[i := SummaryEntry (summary_of ?up)])"
      unfolding st' snd_saveChecklist using i by simp
    then have idx': "index_of st' = (index_of st)[i := SummaryEntry (summary_of ?up)]"
      by (simp add: index_of_def)
    show ?thesis
      using lt hit first idx
      by (intro exI [of _ i]) (simp add: idx' summary_of_def summary_keys_def)
  qed
  show ?thesis
    using scr' key none some by (simp add: loadChecklist_def)
qed

theorem saveChecklist_effect_witness:
  "index_of garage = [FullEntry camry] \<and>
   vehicle_checklists
     (snd (saveChecklist ''1700000000000'' camry ''2023-11-15T08:00:00.000Z''
             (openDetail ''1700000000000'' garage, garage))) =
     Some [SummaryEntry (summary_of (camry\<lparr>updated_at := ''2023-11-15T08:00:00.000Z''\<rparr>))] \<and>
   loadChecklist ''1700000000000''
     (snd (saveChecklist ''1700000000000'' camry ''2023-11-15T08:00:00.000Z''
             (openDetail ''1700000000000'' garage, garage))) =
     Inr (camry\<lparr>updated_at := ''2023-11-15T08:00:00.000Z''\<rparr>)"
proof -
  let ?w = "saveChecklist ''1700000000000'' camry ''2023-11-15T08:00:00.000Z''
              (openDetail ''1700000000000'' garage, garage)"
  have h: "?w = (fst ?w, snd ?w)"
    by simp
  show ?thesis
    using saveChecklist_effect [OF h] garage_index camry_id
    by auto
qed

subsection \<open>Items\<close>

text \<open>
  The claim C5 as stated fails in its "fresh id": the identifier of the new item is the
  value of \<^verbatim>\<open>Date.now()\<close>, taken without a look at the list. When the clock gives for a
  second item the value it gave for the first, the list holds two items with one
  identifier.
\<close>

theorem addItem_id_not_fresh_counterexample:
  "map_option tasks (checklist (fst belt_added)) = Some [belt] \<and>
   map_option tasks (checklist (fst pump_added)) =
     Some [belt,
           \<lparr>item_id = ''1700000060000'', item_text = code_units ''Water pump'',
            completed = False, completed_at = None\<rparr>] \<and>
   item_id belt = ''1700000060000''"
  by (simp add: pump_added_def addItem_def belt_added_checklist trim_pump Let_def
      fst_saveChecklist belt_def)

text \<open>
  C5, amended. With a checklist loaded, \<^verbatim>\<open>addItem\<close> leaves the screen and the store as they
  are when the trimmed text is empty. Otherwise the named list of the resulting checklist
  is the old list followed by exactly one new item, whose identifier is the value the clock
  gave, whose text is the trimmed text, with \<^verbatim>\<open>completed\<close> false and no completion time.
  The identifiers of the list are pairwise distinct afterwards exactly when they were
  before and the clock value is not one of them. The store changes only through
  \<^verbatim>\<open>saveChecklist\<close>, which stores the resulting checklist.
\<close>

theorem addItem_appends_one_item:
  "checklist scr = Some c \<Longrightarrow>
   (trim (newItemText scr) = [] \<longrightarrow> addItem rid sec now_ms now (scr, st) = (scr, st)) \<and>
   (trim (newItemText scr) \<noteq> [] \<longrightarrow>
      (\<exists>c' newItem.
         newItem = \<lparr>item_id = now_ms, item_text = trim (newItemText scr), completed = False,
                    completed_at = None\<rparr> \<and>
         checklist (fst (addItem rid sec now_ms now (scr, st))) = Some c' \<and>
         c' = (set_section sec (get_section sec c @ [newItem]) c)\<lparr>updated_at := now\<rparr> \<and>
         get_section sec c' = get_section sec c @ [newItem] \<and>
         length (get_section sec c') = Suc (length (get_section sec c)) \<and>
         (distinct (map item_id (get_section sec c')) \<longleftrightarrow>
            distinct (map item_id (get_section sec c)) \<and>
            now_ms \<notin> item_id ` set (get_section sec c)) \<and>
         snd (addItem rid sec now_ms now (scr, st)) =
           snd (saveChecklist rid (set_section sec (get_section sec c @ [newItem]) c) now
                  (scr, st)) \<and>
         loadChecklist rid (snd (addItem rid sec now_ms now (scr, st))) = Inr c'))"
proof (intro conjI impI)
  assume "checklist scr = Some c" "trim (newItemText scr) = []"
  then show "addItem rid sec now_ms now (scr, st) = (scr, st)"
    by (simp add: addItem_def)
next
  assume c: "checklist scr = Some c" and t: "trim (newItemText scr) \<noteq> []"
  let ?new = "\<lparr>item_id = now_ms, item_text = trim (newItemText scr), completed = False,
               completed_at = None\<rparr>"
  let ?c' = "(set_section sec (get_section sec c @ [?new]) c)\<lparr>updated_at := now\<rparr>"
  have stored: "loadChecklist rid (snd (addItem rid sec now_ms now (scr, st))) = Inr ?c'"
    unfolding addItem_Some [OF c t]
    by (simp add: snd_saveChecklist loadChecklist_def split: option.splits)
  have state: "checklist (fst (addItem rid sec now_ms now (scr, st))) = Some ?c'"
    unfolding addItem_Some [OF c t] by (simp add: fst_saveChecklist)
  have store: "snd (addItem rid sec now_ms now (scr, st)) =
           snd (saveChecklist rid (set_section sec (get_section sec c @ [?new]) c) now (scr, st))"
    unfolding addItem_Some [OF c t] by simp
  show "\<exists>c' newItem.
         newItem = ?new \<and>
         checklist (fst (addItem rid sec now_ms now (scr, st))) = Some c' \<and>
         c' = (set_section sec (get_section sec c @ [newItem]) c)\<lparr>updated_at := now\<rparr> \<and>
         get_section sec c' = get_section sec c @ [newItem] \<and>
         length (get_section sec c') = Suc (length (get_section sec c)) \<and>
         (distinct (map item_id (get_section sec c')) \<longleftrightarrow>
            distinct (map item_id (get_section sec c)) \<and>
            now_ms \<notin> item_id ` set (get_section sec c)) \<and>
         snd (addItem rid sec now_ms now (scr, st)) =
           snd (saveChecklist rid (set_section sec (get_section sec c @ [newItem]) c) now
                  (scr, st)) \<and>
         loadChecklist rid (snd (addItem rid sec now_ms now (scr, st))) = Inr c'"
    using state store stored
    by (intro exI [of _ ?c'] exI [of _ ?new]) auto
qed

theorem addItem_appends_one_item_witness:
  "checklist (openDetail ''1700000000000'' garage) = Some camry \<and>
   trim (code_units '' Replace timing belt '') = code_units ''Replace timing belt'' \<and>
   map_option tasks (checklist (fst belt_added)) = Some [belt] \<and>
   loadChecklist ''1700000000000'' (snd belt_added) =
     Inr (camry\<lparr>tasks := [belt], updated_at := ''2023-11-14T22:14:20.000Z''\<rparr>) \<and>
   trim [0x00A0, 0x0020, 0xFEFF] = [] \<and>
   addItem ''1700000000000'' Tasks ''1700000060000'' ''2023-11-14T22:14:20.000Z''
     ((openDetail ''1700000000000'' garage)\<lparr>newItemText := [0x00A0, 0x0020, 0xFEFF]\<rparr>, garage) =
     ((openDetail ''1700000000000'' garage)\<lparr>newItemText := [0x00A0, 0x0020, 0xFEFF]\<rparr>, garage)"
proof -
  have h1: "checklist ((openDetail ''1700000000000'' garage)
                         \<lparr>newItemText := code_units '' Replace timing belt ''\<rparr>) = Some camry"
    by (simp add: openDetail_garage)
  have h2: "checklist ((openDetail ''1700000000000'' garage)
                         \<lparr>newItemText := [0x00A0, 0x0020, 0xFEFF]\<rparr>) = Some camry"
    by (simp add: openDetail_garage)
  show ?thesis
    using addItem_appends_one_item [OF h1, where rid = "''1700000000000''" and sec = Tasks
        and now_ms = "''1700000060000''" and now = "''2023-11-14T22:14:20.000Z''"
        and st = garage]
      addItem_appends_one_item [OF h2, where rid = "''1700000000000''" and sec = Tasks
        and now_ms = "''1700000060000''" and now = "''2023-11-14T22:14:20.000Z''"
        and st = garage]
    by (auto simp: belt_added_def trim_belt trim_no_break_space openDetail_garage camry_tasks
        belt_def)
qed

text \<open>
  The claim C6 as stated fails for an item that is completed: two toggles in succession
  bring it back to \<^verbatim>\<open>completed\<close> true, with the clock value of the second toggle as its
  completion time.
\<close>

theorem toggle_twice_counterexample:
  "map_option tasks (checklist (fst belt_done)) =
     Some [belt\<lparr>completed := True, completed_at := Some ''2023-11-14T22:15:00.000Z''\<rparr>] \<and>
   map_option tasks
     (checklist (fst (toggleItem ''1700000000000'' Tasks ''1700000060000''
                        ''2023-11-14T22:17:00.000Z'' ''2023-11-14T22:17:00.002Z''
                        (toggleItem ''1700000000000'' Tasks ''1700000060000''
                           ''2023-11-14T22:16:00.000Z'' ''2023-11-14T22:16:00.002Z''
                           belt_done)))) =
     Some [belt\<lparr>completed := True, completed_at := Some ''2023-11-14T22:17:00.000Z''\<rparr>]"
  by (simp add: toggleItem_def belt_done_checklist Let_def fst_saveChecklist toggled_def belt_def)

text \<open>
  C6, amended. For the first item of the named list that has the given identifier: one
  toggle flips \<^verbatim>\<open>completed\<close>, and sets the completion time to the clock value exactly when
  \<^verbatim>\<open>completed\<close> becomes true and clears it otherwise; two toggles in succession give back
  the value of \<^verbatim>\<open>completed\<close> the item had. An item that was not completed ends not
  completed with no completion time; an item that was completed ends completed with the
  clock value of the second toggle as its completion time.
\<close>

theorem toggle_twice:
  "checklist scr = Some c \<Longrightarrow>
   findIndex (\<lambda>item. item_id item = itemId) (get_section sec c) = Some i \<Longrightarrow>
   \<exists>c1 c2.
     checklist (fst (toggleItem rid sec itemId t1 n1 (scr, st))) = Some c1 \<and>
     get_section sec c1 = (get_section sec c)[i := toggled t1 (get_section sec c ! i)] \<and>
     completed (get_section sec c1 ! i) = (\<not> completed (get_section sec c ! i)) \<and>
     completed_at (get_section sec c1 ! i) =
       (if completed (get_section sec c1 ! i) then Some t1 else None) \<and>
     checklist (fst (toggleItem rid sec itemId t2 n2
                       (toggleItem rid sec itemId t1 n1 (scr, st)))) = Some c2 \<and>
     get_section sec c2 =
       (get_section sec c)[i := (get_section sec c ! i)
          \<lparr>completed_at := (if completed (get_section sec c ! i) then Some t2 else None)\<rparr>] \<and>
     completed (get_section sec c2 ! i) = completed (get_section sec c ! i) \<and>
     (\<not> completed (get_section sec c ! i) \<longrightarrow>
        \<not> completed (get_section sec c2 ! i) \<and> completed_at (get_section sec c2 ! i) = None) \<and>
     (completed (get_section sec c ! i) \<longrightarrow>
        completed (get_section sec c2 ! i) \<and> completed_at (get_section sec c2 ! i) = Some t2)"
proof -
  assume c: "checklist scr = Some c"
    and i: "findIndex (\<lambda>item. item_id item = itemId) (get_section sec c) = Some i"
  let ?xs = "get_section sec c"
  let ?c1 = "(set_section sec (?xs[i := toggled t1 (?xs ! i)]) c)\<lparr>updated_at := n1\<rparr>"
  let ?w1 = "toggleItem rid sec itemId t1 n1 (scr, st)"
  from findIndex_Some [OF i] have lt: "i < length ?xs" and hit: "item_id (?xs ! i) = itemId"
    by auto
  have w1: "?w1 = saveChecklist rid (set_section sec (?xs[i := toggled t1 (?xs ! i)]) c) n1 (scr, st)"
    using c i by (simp add: toggleItem_Some)
  then have c1: "checklist (fst ?w1) = Some ?c1"
    by (simp add: fst_saveChecklist)
  have xs1: "get_section sec ?c1 = ?xs[i := toggled t1 (?xs ! i)]"
    by simp
  have i1: "findIndex (\<lambda>item. item_id item = itemId) (get_section sec ?c1) = Some i"
    unfolding xs1 using i hit by (intro findIndex_update) simp_all
  let ?ys = "get_section sec ?c1"
  let ?c2 = "(set_section sec (?ys[i := toggled t2 (?ys ! i)]) ?c1)\<lparr>updated_at := n2\<rparr>"
  have c2: "checklist (fst (toggleItem rid sec itemId t2 n2 ?w1)) = Some ?c2"
    using toggleItem_Some [OF c1 i1, of rid t2 n2] by (simp add: fst_saveChecklist)
  have xs2: "get_section sec ?c2 =
       ?xs[i := (?xs ! i)\<lparr>completed_at := (if completed (?xs ! i) then Some t2 else None)\<rparr>]"
    using lt by (simp add: toggled_toggled)
  show ?thesis
    using c1 c2 xs1 xs2 lt
    by (intro exI [of _ ?c1] exI [of _ ?c2]) (simp add: toggled_def)
qed

theorem toggle_twice_witness:
  "checklist (fst belt_added) =
     Some (camry\<lparr>tasks := [belt], updated_at := ''2023-11-14T22:14:20.000Z''\<rparr>) \<and>
   findIndex (\<lambda>item. item_id item = ''1700000060000'') [belt] = Some 0 \<and>
   map_option tasks
     (checklist (fst (toggleItem ''1700000000000'' Tasks ''1700000060000''
                        ''2023-11-14T22:15:00.000Z'' ''2023-11-14T22:15:00.002Z''
                        (fst belt_added, snd belt_added)))) =
     Some [belt\<lparr>completed := True, completed_at := Some ''2023-11-14T22:15:00.000Z''\<rparr>] \<and>
   map_option tasks
     (checklist (fst (toggleItem ''1700000000000'' Tasks ''1700000060000''
                        ''2023-11-14T22:17:00.000Z'' ''2023-11-14T22:17:00.002Z''
                        (toggleItem ''1700000000000'' Tasks ''1700000060000''
                           ''2023-11-14T22:15:00.000Z'' ''2023-11-14T22:15:00.002Z''
                           (fst belt_added, snd belt_added))))) =
     Some [belt]"
proof -
  have h1: "checklist (fst belt_added) =
     Some (camry\<lparr>tasks := [belt], updated_at := ''2023-11-14T22:14:20.000Z''\<rparr>)"
    by (rule belt_added_checklist)
  have h2: "findIndex (\<lambda>item. item_id item = ''1700000060000'')
              (get_section Tasks
                 (camry\<lparr>tasks := [belt], updated_at := ''2023-11-14T22:14:20.000Z''\<rparr>)) = Some 0"
    by (simp add: belt_def)
  show ?thesis
    using toggle_twice [OF h1 h2, of "''1700000000000''" "''2023-11-14T22:15:00.000Z''"
        "''2023-11-14T22:15:00.002Z''" "snd belt_added" "''2023-11-14T22:17:00.000Z''"
        "''2023-11-14T22:17:00.002Z''"] h1 h2
    by (auto simp: toggled_def belt_def)
qed

text \<open>
  C7. \<^verbatim>\<open>addItem\<close> and \<^verbatim>\<open>toggleItem\<close> leave the three other item lists and the photo list
  as they are, and the identifier, title, vehicle and engine information and creation time
  of the checklist as well. Under \<^verbatim>\<open>addItem\<close> the old items of the named list stay in
  place, followed by at most one new item. Under \<^verbatim>\<open>toggleItem\<close> the named list keeps its
  length, every item keeps its identifier and its text, and every item other than the one
  \<^verbatim>\<open>findIndex\<close> finds is unchanged.
\<close>

theorem item_operations_frame:
  "checklist scr = Some c \<Longrightarrow>
   (\<exists>c'. checklist (fst (addItem rid sec now_ms now (scr, st))) = Some c' \<and>
      (\<forall>s. s \<noteq> sec \<longrightarrow> get_section s c' = get_section s c) \<and>
      photos c' = photos c \<and>
      checklist_id c' = checklist_id c \<and> title c' = title c \<and>
      vehicle_info c' = vehicle_info c \<and> engine_info c' = engine_info c \<and>
      created_at c' = created_at c \<and>
      take (length (get_section sec c)) (get_section sec c') = get_section sec c \<and>
      length (get_section sec c') \<le> Suc (length (get_section sec c))) \<and>
   (\<exists>c'. checklist (fst (toggleItem rid sec itemId now_iso now (scr, st))) = Some c' \<and>
      (\<forall>s. s \<noteq> sec \<longrightarrow> get_section s c' = get_section s c) \<and>
      photos c' = photos c \<and>
      checklist_id c' = checklist_id c \<and> title c' = title c \<and>
      vehicle_info c' = vehicle_info c \<and> engine_info c' = engine_info c \<and>
      created_at c' = created_at c \<and>
      length (get_section sec c') = length (get_section sec c) \<and>
      (\<forall>j < length (get_section sec c).
         item_id (get_section sec c' ! j) = item_id (get_section sec c ! j) \<and>
         item_text (get_section sec c' ! j) = item_text (get_section sec c ! j) \<and>
         (findIndex (\<lambda>item. item_id item = itemId) (get_section sec c) \<noteq> Some j \<longrightarrow>
            get_section sec c' ! j = get_section sec c ! j)))"
proof (rule conjI)
  assume c: "checklist scr = Some c"
  show "\<exists>c'. checklist (fst (addItem rid sec now_ms now (scr, st))) = Some c' \<and>
      (\<forall>s. s \<noteq> sec \<longrightarrow> get_section s c' = get_section s c) \<and>
      photos c' = photos c \<and>
      checklist_id c' = checklist_id c \<and> title c' = title c \<and>
      vehicle_info c' = vehicle_info c \<and> engine_info c' = engine_info c \<and>
      created_at c' = created_at c \<and>
      take (length (get_section sec c)) (get_section sec c') = get_section sec c \<and>
      length (get_section sec c') \<le> Suc (length (get_section sec c))"
  proof (cases "trim (newItemText scr) = []")
    case True
    with c have "addItem rid sec now_ms now (scr, st) = (scr, st)"
      by (simp add: addItem_def)
    with c show ?thesis by simp
  next
    case False
    show ?thesis
      unfolding addItem_Some [OF c False] by (simp add: fst_saveChecklist)
  qed
next
  assume c: "checklist scr = Some c"
  let ?xs = "get_section sec c"
  show "\<exists>c'. checklist (fst (toggleItem rid sec itemId now_iso now (scr, st))) = Some c' \<and>
      (\<forall>s. s \<noteq> sec \<longrightarrow> get_section s c' = get_section s c) \<and>
      photos c' = photos c \<and>
      checklist_id c' = checklist_id c \<and> title c' = title c \<and>
      vehicle_info c' = vehicle_info c \<and> engine_info c' = engine_info c \<and>
      created_at c' = created_at c \<and>
      length (get_section sec c') = length ?xs \<and>
      (\<forall>j < length ?xs.
         item_id (get_section sec c' ! j) = item_id (?xs ! j) \<and>
         item_text (get_section sec c' ! j) = item_text (?xs ! j) \<and>
         (findIndex (\<lambda>item. item_id item = itemId) ?xs \<noteq> Some j \<longrightarrow>
            get_section sec c' ! j = ?xs ! j))"
  proof (cases "findIndex (\<lambda>item. item_id item = itemId) ?xs")
    case None
    with c have "toggleItem rid sec itemId now_iso now (scr, st) = (scr, st)"
      by (simp add: toggleItem_None)
    with c show ?thesis by simp
  next
    case (Some i)
    have w: "toggleItem rid sec itemId now_iso now (scr, st) =
               saveChecklist rid (set_section sec (?xs[i := toggled now_iso (?xs ! i)]) c) now
                 (scr, st)"
      using c Some by (simp add: toggleItem_Some)
    show ?thesis
      unfolding w using Some findIndex_Some [OF Some]
      by (auto simp: fst_saveChecklist nth_list_update toggled_def)
  qed
qed

theorem item_operations_frame_witness:
  "checklist (fst belt_done) =
     Some (camry\<lparr>tasks := [belt\<lparr>completed := True,
                                 completed_at := Some ''2023-11-14T22:15:00.000Z''\<rparr>],
                 updated_at := ''2023-11-14T22:15:00.002Z''\<rparr>) \<and>
   (\<exists>c'. checklist (fst (addItem ''1700000000000'' Parts_to_install ''1700000090000''
                            ''2023-11-14T22:18:00.000Z''
                            ((fst belt_done)\<lparr>newItemText := code_units ''Water pump''\<rparr>, snd belt_done))) =
            Some c' \<and>
          tasks c' = [belt\<lparr>completed := True,
                            completed_at := Some ''2023-11-14T22:15:00.000Z''\<rparr>] \<and>
          maintenance c' = [] \<and> research_items c' = [] \<and> photos c' = []) \<and>
   (\<exists>c'. checklist (fst (toggleItem ''1700000000000'' Tasks ''1700000060000''
                            ''2023-11-14T22:19:00.000Z'' ''2023-11-14T22:19:00.002Z''
                            ((fst belt_done)\<lparr>newItemText := code_units ''Water pump''\<rparr>, snd belt_done))) =
            Some c' \<and>
          parts_to_install c' = [] \<and> maintenance c' = [] \<and> research_items c' = [] \<and>
          photos c' = [] \<and> map item_text (tasks c') = [code_units ''Replace timing belt''])"
proof -
  have h: "checklist ((fst belt_done)\<lparr>newItemText := code_units ''Water pump''\<rparr>) =
     Some (camry\<lparr>tasks := [belt\<lparr>completed := True,
                                 completed_at := Some ''2023-11-14T22:15:00.000Z''\<rparr>],
                 updated_at := ''2023-11-14T22:15:00.002Z''\<rparr>)"
    by (simp add: belt_done_checklist)
  have lists: "parts_to_install camry = []" "maintenance camry = []" "research_items camry = []"
    "photos camry = []"
    by (simp_all add: camry_def newChecklist_def)
  have secs: "Tasks \<noteq> Parts_to_install" "Maintenance \<noteq> Parts_to_install"
    "Research_items \<noteq> Parts_to_install" "Parts_to_install \<noteq> Tasks" "Maintenance \<noteq> Tasks"
    "Research_items \<noteq> Tasks"
    by simp_all
  from item_operations_frame [OF h, where rid = "''1700000000000''" and sec = Parts_to_install
      and now_ms = "''1700000090000''" and now = "''2023-11-14T22:18:00.000Z''"
      and st = "snd belt_done"]
  obtain c' where a:
    "checklist (fst (addItem ''1700000000000'' Parts_to_install ''1700000090000''
                       ''2023-11-14T22:18:00.000Z''
                       ((fst belt_done)\<lparr>newItemText := code_units ''Water pump''\<rparr>, snd belt_done))) = Some c'"
    "\<forall>s. s \<noteq> Parts_to_install \<longrightarrow> get_section s c' =
        get_section s (camry\<lparr>tasks := [belt\<lparr>completed := True,
                                 completed_at := Some ''2023-11-14T22:15:00.000Z''\<rparr>],
                 updated_at := ''2023-11-14T22:15:00.002Z''\<rparr>)"
    "photos c' = photos (camry\<lparr>tasks := [belt\<lparr>completed := True,
                                 completed_at := Some ''2023-11-14T22:15:00.000Z''\<rparr>],
                 updated_at := ''2023-11-14T22:15:00.002Z''\<rparr>)"
    by blast
  from a(2) secs have a': "get_section Tasks c' = [belt\<lparr>completed := True,
                            completed_at := Some ''2023-11-14T22:15:00.000Z''\<rparr>]"
    "get_section Maintenance c' = []" "get_section Research_items c' = []"
    using lists by auto
  from item_operations_frame [OF h, where rid = "''1700000000000''" and sec = Tasks
      and itemId = "''1700000060000''" and now_iso = "''2023-11-14T22:19:00.000Z''"
      and now = "''2023-11-14T22:19:00.002Z''" and st = "snd belt_done"]
  obtain d' where b:
    "checklist (fst (toggleItem ''1700000000000'' Tasks ''1700000060000''
                       ''2023-11-14T22:19:00.000Z'' ''2023-11-14T22:19:00.002Z''
                       ((fst belt_done)\<lparr>newItemText := code_units ''Water pump''\<rparr>, snd belt_done))) = Some d'"
    "\<forall>s. s \<noteq> Tasks \<longrightarrow> get_section s d' =
        get_section s (camry\<lparr>tasks := [belt\<lparr>completed := True,
                                 completed_at := Some ''2023-11-14T22:15:00.000Z''\<rparr>],
                 updated_at := ''2023-11-14T22:15:00.002Z''\<rparr>)"
    "photos d' = photos (camry\<lparr>tasks := [belt\<lparr>completed := True,
                                 completed_at := Some ''2023-11-14T22:15:00.000Z''\<rparr>],
                 updated_at := ''2023-11-14T22:15:00.002Z''\<rparr>)"
    "length (get_section Tasks d') = length (get_section Tasks (camry\<lparr>tasks := [belt\<lparr>completed := True,
                                 completed_at := Some ''2023-11-14T22:15:00.000Z''\<rparr>],
                 updated_at := ''2023-11-14T22:15:00.002Z''\<rparr>))"
    "\<forall>j < length (get_section Tasks (camry\<lparr>tasks := [belt\<lparr>completed := True,
                                 completed_at := Some ''2023-11-14T22:15:00.000Z''\<rparr>],
                 updated_at := ''2023-11-14T22:15:00.002Z''\<rparr>)).
        item_text (get_section Tasks d' ! j) =
        item_text (get_section Tasks (camry\<lparr>tasks := [belt\<lparr>completed := True,
                                 completed_at := Some ''2023-11-14T22:15:00.000Z''\<rparr>],
                 updated_at := ''2023-11-14T22:15:00.002Z''\<rparr>) ! j)"
    by blast
  from b(2) secs have b': "get_section Parts_to_install d' = []"
    "get_section Maintenance d' = []" "get_section Research_items d' = []"
    using lists by auto
  from b(4,5) have b'': "map item_text (tasks d') = [code_units ''Replace timing belt'']"
    by (cases "tasks d'") (auto simp: belt_def)
  show ?thesis
    using belt_done_checklist a(1,3) a' b(1,3) b' b'' lists
    by auto
qed

subsection \<open>Photos\<close>

text \<open>
  The claim C8 as stated fails where no photo has the identifier: \<^verbatim>\<open>updatePhotoDescription\<close>
  calls \<^verbatim>\<open>saveChecklist\<close> all the same, so the checklist of the screen and the stored
  record get a new \<^verbatim>\<open>updated_at\<close>. The operation changes the state.
\<close>

theorem updatePhotoDescription_not_noop_counterexample:
  "photos camry = [] \<and>
   checklist (openDetail ''1700000000000'' garage) = Some camry \<and>
   loadChecklist ''1700000000000'' garage = Inr camry \<and>
   loadChecklist ''1700000000000''
     (snd (updatePhotoDescription ''1700000000000'' ''1700000070000'' ''Engine bay''
             ''2023-11-15T08:00:00.000Z'' (openDetail ''1700000000000'' garage, garage))) =
     Inr (camry\<lparr>updated_at := ''2023-11-15T08:00:00.000Z''\<rparr>) \<and>
   camry\<lparr>updated_at := ''2023-11-15T08:00:00.000Z''\<rparr> \<noteq> camry \<and>
   updatePhotoDescription ''1700000000000'' ''1700000070000'' ''Engine bay''
     ''2023-11-15T08:00:00.000Z'' (openDetail ''1700000000000'' garage, garage) \<noteq>
   (openDetail ''1700000000000'' garage, garage)"
proof -
  have ne: "camry\<lparr>updated_at := ''2023-11-15T08:00:00.000Z''\<rparr> \<noteq> camry"
  proof
    assume "camry\<lparr>updated_at := ''2023-11-15T08:00:00.000Z''\<rparr> = camry"
    then have "updated_at (camry\<lparr>updated_at := ''2023-11-15T08:00:00.000Z''\<rparr>) = updated_at camry"
      by simp
    then show False
      by (simp add: camry_updated_at)
  qed
  have w: "updatePhotoDescription ''1700000000000'' ''1700000070000'' ''Engine bay''
        ''2023-11-15T08:00:00.000Z'' (openDetail ''1700000000000'' garage, garage) =
      saveChecklist ''1700000000000'' camry ''2023-11-15T08:00:00.000Z''
        (openDetail ''1700000000000'' garage, garage)"
  proof -
    have eq: "camry\<lparr>photos := []\<rparr> = camry"
      by (simp add: camry_def newChecklist_def)
    have "updatePhotoDescription ''1700000000000'' ''1700000070000'' ''Engine bay''
        ''2023-11-15T08:00:00.000Z'' (openDetail ''1700000000000'' garage, garage) =
      saveChecklist ''1700000000000'' (camry\<lparr>photos := []\<rparr>) ''2023-11-15T08:00:00.000Z''
        (openDetail ''1700000000000'' garage, garage)"
      by (simp add: updatePhotoDescription_def openDetail_garage camry_photos Let_def)
    then show ?thesis
      by (simp only: eq)
  qed
  have st: "loadChecklist ''1700000000000''
      (snd (saveChecklist ''1700000000000'' camry ''2023-11-15T08:00:00.000Z''
              (openDetail ''1700000000000'' garage, garage))) =
      Inr (camry\<lparr>updated_at := ''2023-11-15T08:00:00.000Z''\<rparr>)"
    by (simp add: snd_saveChecklist loadChecklist_def split: option.splits)
  have diff: "saveChecklist ''1700000000000'' camry ''2023-11-15T08:00:00.000Z''
        (openDetail ''1700000000000'' garage, garage) \<noteq>
      (openDetail ''1700000000000'' garage, garage)"
  proof
    assume "saveChecklist ''1700000000000'' camry ''2023-11-15T08:00:00.000Z''
        (openDetail ''1700000000000'' garage, garage) =
      (openDetail ''1700000000000'' garage, garage)"
    then have "checklist (fst (saveChecklist ''1700000000000'' camry ''2023-11-15T08:00:00.000Z''
        (openDetail ''1700000000000'' garage, garage))) =
        checklist (openDetail ''1700000000000'' garage)"
      by simp
    then show False
      using ne by (simp add: fst_saveChecklist openDetail_garage)
  qed
  have h0: "checklist (openDetail ''1700000000000'' garage) = Some camry"
    by (simp add: openDetail_garage)
  have h1: "loadChecklist ''1700000000000'' garage = Inr camry"
    by (simp add: loadChecklist_def garage_camry)
  show ?thesis
    unfolding w using ne st diff camry_photos h0 h1 by simp
qed

text \<open>
  C8, amended. \<^verbatim>\<open>updatePhotoDescription\<close> gives every photo whose identifier is the given
  one the new description and leaves its identifier, image data and timestamp as they are;
  every other photo and the four item lists are unchanged. When no photo has the
  identifier, the photo list is unchanged, and the checklist is saved with a new
  \<^verbatim>\<open>updated_at\<close> and no other change.
\<close>

theorem updatePhotoDescription_effect:
  "checklist scr = Some c \<Longrightarrow>
   \<exists>c'. checklist (fst (updatePhotoDescription rid photoId descr now (scr, st))) = Some c' \<and>
        loadChecklist rid (snd (updatePhotoDescription rid photoId descr now (scr, st))) = Inr c' \<and>
        length (photos c') = length (photos c) \<and>
        (\<forall>j < length (photos c).
           (photo_id (photos c ! j) = photoId \<longrightarrow>
              photo_description (photos c' ! j) = descr \<and>
              photo_id (photos c' ! j) = photo_id (photos c ! j) \<and>
              base64_data (photos c' ! j) = base64_data (photos c ! j) \<and>
              timestamp (photos c' ! j) = timestamp (photos c ! j)) \<and>
           (photo_id (photos c ! j) \<noteq> photoId \<longrightarrow> photos c' ! j = photos c ! j)) \<and>
        (\<forall>s. get_section s c' = get_section s c) \<and>
        ((\<forall>photo \<in> set (photos c). photo_id photo \<noteq> photoId) \<longrightarrow>
           photos c' = photos c \<and> c' = c\<lparr>updated_at := now\<rparr>)"
proof -
  assume c: "checklist scr = Some c"
  let ?f = "\<lambda>photo. if photo_id photo = photoId then photo\<lparr>photo_description := descr\<rparr> else photo"
  let ?c' = "c\<lparr>photos := map ?f (photos c), updated_at := now\<rparr>"
  have w: "updatePhotoDescription rid photoId descr now (scr, st) =
             saveChecklist rid (c\<lparr>photos := map ?f (photos c)\<rparr>) now (scr, st)"
    using c by (simp add: updatePhotoDescription_def Let_def)
  have state: "checklist (fst (updatePhotoDescription rid photoId descr now (scr, st))) = Some ?c'"
    unfolding w by (simp add: fst_saveChecklist)
  have stored: "loadChecklist rid (snd (updatePhotoDescription rid photoId descr now (scr, st))) =
                  Inr ?c'"
    unfolding w by (simp add: snd_saveChecklist loadChecklist_def split: option.splits)
  have same: "map ?f (photos c) = photos c" if "\<forall>photo \<in> set (photos c). photo_id photo \<noteq> photoId"
    using that by (induction "photos c") (auto simp: map_idI)
  have secs: "get_section s ?c' = get_section s c" for s
    by (cases s) simp_all
  show ?thesis
    using state stored same secs
    by (intro exI [of _ ?c']) auto
qed

theorem updatePhotoDescription_effect_witness:
  "checklist (fst photos_added) =
     Some (camry\<lparr>photos := [engine_photo, wheel_photo],
                 updated_at := ''2023-11-14T22:16:20.002Z''\<rparr>) \<and>
   photo_description engine_photo = [] \<and>
   map_option photos
     (checklist (fst (updatePhotoDescription ''1700000000000'' ''1700000120000'' ''Engine bay''
                        ''2023-11-14T22:17:00.000Z'' (fst photos_added, snd photos_added)))) =
     Some [\<lparr>photo_id = ''1700000120000'', base64_data = ''abc123'',
            photo_description = ''Engine bay'', timestamp = ''2023-11-14T22:15:20.000Z''\<rparr>,
           wheel_photo]"
proof -
  let ?c = "camry\<lparr>photos := [engine_photo, wheel_photo],
                  updated_at := ''2023-11-14T22:16:20.002Z''\<rparr>"
  have h: "checklist (fst photos_added) = Some ?c"
    by (rule photos_added_checklist)
  from updatePhotoDescription_effect [OF h, where rid = "''1700000000000''"
      and photoId = "''1700000120000''" and descr = "''Engine bay''"
      and now = "''2023-11-14T22:17:00.000Z''" and st = "snd photos_added"]
  obtain c' where c':
    "checklist (fst (updatePhotoDescription ''1700000000000'' ''1700000120000'' ''Engine bay''
                       ''2023-11-14T22:17:00.000Z'' (fst photos_added, snd photos_added))) = Some c'"
    "length (photos c') = length (photos ?c)"
    "\<forall>j < length (photos ?c).
       (photo_id (photos ?c ! j) = ''1700000120000'' \<longrightarrow>
          photo_description (photos c' ! j) = ''Engine bay'' \<and>
          photo_id (photos c' ! j) = photo_id (photos ?c ! j) \<and>
          base64_data (photos c' ! j) = base64_data (photos ?c ! j) \<and>
          timestamp (photos c' ! j) = timestamp (photos ?c ! j)) \<and>
       (photo_id (photos ?c ! j) \<noteq> ''1700000120000'' \<longrightarrow> photos c' ! j = photos ?c ! j)"
    by blast
  from c'(2) obtain p q where pq: "photos c' = [p, q]"
    by (cases "photos c'"; cases "tl (photos c')") auto
  from c'(3) [rule_format, of 0] pq have p:
    "photo_description p = ''Engine bay''" "photo_id p = ''1700000120000''"
    "base64_data p = ''abc123''" "timestamp p = ''2023-11-14T22:15:20.000Z''"
    by (simp_all add: engine_photo_def)
  from c'(3) [rule_format, of 1] pq have q: "q = wheel_photo"
    by (simp add: engine_photo_def wheel_photo_def)
  from p have "p = \<lparr>photo_id = ''1700000120000'', base64_data = ''abc123'',
                     photo_description = ''Engine bay'',
                     timestamp = ''2023-11-14T22:15:20.000Z''\<rparr>"
    by (cases p) simp
  with pq q c'(1) h show ?thesis
    by (simp add: engine_photo_def)
qed

subsection \<open>The vehicle information screen\<close>

text \<open>
  The value of a row for a record of the two shapes, and the render step: strings are
  rendered, an object is refused.
\<close>

lemma map_of_info_fields:
  "map_of (map (\<lambda>(k, s). (k, JStr s)) fs) field = map_option JStr (map_of fs field)"
  by (induction fs) auto

lemma nested_field:
  "stored_as (map_of props key) fs \<Longrightarrow>
   \<exists>a v. get_prop (JObj props) key = Inr a \<and> opt_prop a field = Inr v \<and>
         (truthy v \<longleftrightarrow> field_text fs field \<noteq> []) \<and>
         (truthy v \<longrightarrow> v = JStr (field_text fs field))"
  unfolding stored_as_def
  by (auto simp: opt_prop_def info_object_def field_text_def map_of_info_fields
      split: option.splits)

lemma info_value_stored:
  assumes "stored_as (map_of props camel) fa" and "stored_as (map_of props snake) fb"
  shows "info_value (JObj props) camel snake field =
           Inr (JStr (or_else (field_text fa field) (field_text fb field)))"
proof -
  from nested_field [OF assms(1)] obtain a v where
    a: "get_prop (JObj props) camel = Inr a" "opt_prop a field = Inr v"
       "truthy v \<longleftrightarrow> field_text fa field \<noteq> []" "truthy v \<longrightarrow> v = JStr (field_text fa field)"
    by blast
  from nested_field [OF assms(2)] obtain b v' where
    b: "get_prop (JObj props) snake = Inr b" "opt_prop b field = Inr v'"
       "truthy v' \<longleftrightarrow> field_text fb field \<noteq> []" "truthy v' \<longrightarrow> v' = JStr (field_text fb field)"
    by blast
  show ?thesis
    using a b by (auto simp: info_value_def or_else_def)
qed

lemma info_rows_stored:
  assumes "stored_as (map_of props camel) fa" and "stored_as (map_of props snake) fb"
  shows "info_rows (JObj props) camel snake rows = Inr (shown_rows rows fa fb)"
proof (induction rows)
  case Nil
  show ?case by (simp add: shown_rows_def)
next
  case (Cons r rows)
  obtain label field where r: "r = (label, field)"
    by (cases r)
  show ?case
    using Cons by (simp add: r info_value_stored [OF assms] shown_rows_def)
qed

lemma render_rows_renderable:
  "(\<forall>r \<in> set rows. renderable (snd r)) \<Longrightarrow> render_rows rows = Inr rows"
  by (induction rows) auto

lemma renderable_shown_rows: "r \<in> set (shown_rows rows fa fb) \<Longrightarrow> renderable (snd r)"
  by (auto simp: shown_rows_def)

lemma object_field_is_refused: "VehicleInfo_screen object_field_record = Inl InvalidChild"
  by (simp add: VehicleInfo_screen_def object_field_record_def vehicle_rows_def engine_rows_def
      info_value_def opt_prop_def)

text \<open>
  C10. For a record that stores each nested information object either not at all or as an
  object of string fields, under the camelCase key, the snake_case key or both, reading
  does not fail: every row's value is evaluated without an error and is the text of its
  field in the camelCase object when that is not empty, else the text in the snake_case
  object, and the empty string when neither supplies the field; the screen renders, and
  shows the rows whose value is not empty.
\<close>

theorem legacy_shapes_are_read:
  "stored_as (map_of props ''vehicleInfo'') vc \<Longrightarrow>
   stored_as (map_of props ''vehicle_info'') vs \<Longrightarrow>
   stored_as (map_of props ''engineInfo'') ec \<Longrightarrow>
   stored_as (map_of props ''engine_info'') es \<Longrightarrow>
   (\<forall>field. info_value (JObj props) ''vehicleInfo'' ''vehicle_info'' field =
              Inr (JStr (or_else (field_text vc field) (field_text vs field)))) \<and>
   (\<forall>field. info_value (JObj props) ''engineInfo'' ''engine_info'' field =
              Inr (JStr (or_else (field_text ec field) (field_text es field)))) \<and>
   VehicleInfo_screen (JObj props) =
     Inr (InfoView (shown_rows vehicle_rows vc vs @ shown_rows engine_rows ec es))"
proof (intro conjI allI)
  fix field
  assume "stored_as (map_of props ''vehicleInfo'') vc" "stored_as (map_of props ''vehicle_info'') vs"
  then show "info_value (JObj props) ''vehicleInfo'' ''vehicle_info'' field =
               Inr (JStr (or_else (field_text vc field) (field_text vs field)))"
    by (rule info_value_stored)
next
  fix field
  assume "stored_as (map_of props ''engineInfo'') ec" "stored_as (map_of props ''engine_info'') es"
  then show "info_value (JObj props) ''engineInfo'' ''engine_info'' field =
               Inr (JStr (or_else (field_text ec field) (field_text es field)))"
    by (rule info_value_stored)
next
  assume a: "stored_as (map_of props ''vehicleInfo'') vc"
    "stored_as (map_of props ''vehicle_info'') vs"
    "stored_as (map_of props ''engineInfo'') ec" "stored_as (map_of props ''engine_info'') es"
  have "render_rows (shown_rows vehicle_rows vc vs @ shown_rows engine_rows ec es) =
          Inr (shown_rows vehicle_rows vc vs @ shown_rows engine_rows ec es)"
    by (rule render_rows_renderable) (auto dest: renderable_shown_rows)
  with a show "VehicleInfo_screen (JObj props) =
      Inr (InfoView (shown_rows vehicle_rows vc vs @ shown_rows engine_rows ec es))"
    by (simp add: VehicleInfo_screen_def info_rows_stored)
qed

theorem legacy_shapes_are_read_witness:
  "VehicleInfo_screen legacy_record =
     Inr (InfoView [(''Make'', JStr ''Toyota''), (''Model Year'', JStr ''2023''),
                    (''Engine Code'', JStr ''2AR-FE'')]) \<and>
   info_value legacy_record ''vehicleInfo'' ''vehicle_info'' ''model'' = Inr (JStr []) \<and>
   info_value legacy_record ''engineInfo'' ''engine_info'' ''bore'' = Inr (JStr [])"
proof -
  let ?props = "[(''id'', JStr ''1600000000000''), (''title'', JStr ''Old project''),
           (''vehicleInfo'', info_object [(''make'', ''Toyota''), (''year'', ''2023'')]),
           (''engine_info'', info_object [(''engineCode'', ''2AR-FE''), (''bore'', [])])]"
  have h1: "stored_as (map_of ?props ''vehicleInfo'') [(''make'', ''Toyota''), (''year'', ''2023'')]"
    by (simp add: stored_as_def)
  have h2: "stored_as (map_of ?props ''vehicle_info'') []"
    by (simp add: stored_as_def)
  have h3: "stored_as (map_of ?props ''engineInfo'') []"
    by (simp add: stored_as_def)
  have h4: "stored_as (map_of ?props ''engine_info'') [(''engineCode'', ''2AR-FE''), (''bore'', [])]"
    by (simp add: stored_as_def)
  have v: "shown_rows vehicle_rows [(''make'', ''Toyota''), (''year'', ''2023'')] [] =
             [(''Make'', JStr ''Toyota''), (''Model Year'', JStr ''2023'')]"
    by (simp add: shown_rows_def vehicle_rows_def field_text_def or_else_def)
  have e: "shown_rows engine_rows [] [(''engineCode'', ''2AR-FE''), (''bore'', [])] =
             [(''Engine Code'', JStr ''2AR-FE'')]"
    by (simp add: shown_rows_def engine_rows_def field_text_def or_else_def)
  show ?thesis
    using legacy_shapes_are_read [OF h1 h2 h3 h4] v e
    by (simp add: legacy_record_def field_text_def or_else_def)
qed

subsection \<open>Reachable stores\<close>





















end
